theory Spec2Isabelle
  imports Complex_Main "HOL-Library.Multiset" "HOL-Library.While_Combinator"
begin

section \<open>Protein clustering: cluster detection and contact aggregation\<close>

text \<open>
  A shallow embedding of the core of \<^verbatim>\<open>clustering_prot.py\<close>: the two cluster
  detectors, the per-frame cluster processing (with and without leaflets), the
  size-group table, the loading of the cutoff and group files, and the statistics
  finalizer. Proteins and species are indexed by natural numbers, numpy float arrays
  are lists of reals (exact arithmetic stands for the floats), dictionaries are maps,
  and every exception or \<^verbatim>\<open>sys.exit(1)\<close> of the script is a value of type \<open>error\<close>.
\<close>

datatype error =
    KeyError
  | IndexError
  | ValueError
  | ZeroDivisionError
  | Exit string

subsection \<open>Density-based detection (\<^verbatim>\<open>detect_clusters_density\<close>)\<close>




text \<open>\<^verbatim>\<open>np.unique\<close>: the distinct values, ascending.\<close>

definition np_unique :: "int list \<Rightarrow> int list" where
  "np_unique xs = sort (remdups xs)"




subsection \<open>Errors and text helpers\<close>

definition bind_err :: "error + 'a \<Rightarrow> ('a \<Rightarrow> error + 'b) \<Rightarrow> error + 'b" where
  "bind_err m f = (case m of Inl e \<Rightarrow> Inl e | Inr x \<Rightarrow> f x)"

text \<open>A loop whose body may raise: the first error ends it.\<close>

fun fold_err :: "('a \<Rightarrow> 's \<Rightarrow> error + 's) \<Rightarrow> 'a list \<Rightarrow> 's \<Rightarrow> error + 's" where
  "fold_err f [] s = Inr s"
| "fold_err f (x # xs) s = (case f x s of Inl e \<Rightarrow> Inl e | Inr s' \<Rightarrow> fold_err f xs s')"

text \<open>\<^verbatim>\<open>map\<close> with a function that may raise.\<close>

fun map_err :: "('a \<Rightarrow> error + 'b) \<Rightarrow> 'a list \<Rightarrow> error + 'b list" where
  "map_err f [] = Inr []"
| "map_err f (x # xs) =
     (case f x of Inl e \<Rightarrow> Inl e
      | Inr y \<Rightarrow> (case map_err f xs of Inl e \<Rightarrow> Inl e | Inr ys \<Rightarrow> Inr (y # ys)))"

text \<open>\<^verbatim>\<open>line.split(',')\<close>.\<close>

fun split_on :: "char \<Rightarrow> string \<Rightarrow> string list" where
  "split_on c [] = [[]]"
| "split_on c (x # xs) =
     (if x = c then [] # split_on c xs
      else (case split_on c xs of w # ws \<Rightarrow> (x # w) # ws | [] \<Rightarrow> [[x]]))"

text \<open>\<^verbatim>\<open>if line[-1] == "\n": line = line[:-1]\<close>; \<^verbatim>\<open>line[-1]\<close> raises on an empty
  string.\<close>

definition strip_newline :: "string \<Rightarrow> error + string" where
  "strip_newline line =
     (if line = [] then Inl IndexError
      else if last line = CHR 0x0A then Inr (butlast line) else Inr line)"

text \<open>
  Python's \<^verbatim>\<open>int(s)\<close> on a string: surrounding white space is dropped, then an
  optional sign and at least one decimal digit must remain; anything else raises
  \<^verbatim>\<open>ValueError\<close>.
\<close>

definition is_space :: "char \<Rightarrow> bool" where
  "is_space c = ((of_char c :: nat) = 32 \<or> (9 \<le> (of_char c :: nat) \<and> (of_char c :: nat) \<le> 13))"

definition is_digit :: "char \<Rightarrow> bool" where
  "is_digit c = (48 \<le> (of_char c :: nat) \<and> (of_char c :: nat) \<le> 57)"

definition strip :: "string \<Rightarrow> string" where
  "strip s = rev (dropWhile is_space (rev (dropWhile is_space s)))"

definition digits_value :: "string \<Rightarrow> nat" where
  "digits_value ds = foldl (\<lambda>a c. 10 * a + (of_char c - 48)) 0 ds"

definition py_int :: "string \<Rightarrow> error + int" where
  "py_int s =
     (let t = strip s;
          neg = (t \<noteq> [] \<and> hd t = CHR ''-'');
          ds = (if t \<noteq> [] \<and> (hd t = CHR ''-'' \<or> hd t = CHR ''+'') then tl t else t)
      in if ds \<noteq> [] \<and> list_all is_digit ds
         then Inr (if neg then - int (digits_value ds) else int (digits_value ds))
         else Inl ValueError)"

subsection \<open>Size groups (\<^verbatim>\<open>initialise_groups\<close>)\<close>

text \<open>
  The globals the function sets. \<open>groups_boundaries\<close> holds \<open>[min, max]\<close> per group
  index; \<open>groups_sizes_dict\<close> is the dictionary from cluster size to group index, kept
  as an association list without repeated keys; \<open>colours_groups\<close> is the colour given
  on each line.
\<close>

record groups =
  groups_number :: nat
  groups_boundaries :: "(int \<times> int) list"
  groups_sizes_dict :: "(int \<times> nat) list"
  colours_groups :: "string list"

text \<open>One line \<^verbatim>\<open>min,max,colour\<close> of the file; \<^verbatim>\<open>max\<close> may be the word
  \<^verbatim>\<open>max\<close>, which is replaced by 100000.\<close>

definition parse_group_line :: "string \<Rightarrow> error + ((int \<times> int) \<times> string)" where
  "parse_group_line line0 =
     bind_err (strip_newline line0) (\<lambda>line.
       let l_content = split_on CHR '','' line
       in if length l_content \<noteq> 3 then Inl (Exit ''the format of the line should be min,max,colour'')
          else bind_err (py_int (l_content ! 0)) (\<lambda>tmp_beg.
               bind_err (if l_content ! 1 = ''max'' then Inr 100000 else py_int (l_content ! 1))
                 (\<lambda>tmp_end. Inr ((tmp_beg, tmp_end), l_content ! 2))))"

text \<open>The check for overlapping boundaries: the loop over the groups from index 1,
  carrying \<^verbatim>\<open>prev_end\<close>.\<close>

fun check_following :: "int \<Rightarrow> (int \<times> int) list \<Rightarrow> error + unit" where
  "check_following prev_end [] = Inr ()"
| "check_following prev_end ((tmp_beg, tmp_end) # bs) =
     (if tmp_end < tmp_beg then Inl (Exit ''the max size is smaller than the min size'')
      else if tmp_beg \<le> prev_end then Inl (Exit ''groups overlap or are not in increasing order'')
      else check_following tmp_end bs)"

text \<open>\<^verbatim>\<open>groups_boundaries[0]\<close> raises \<^verbatim>\<open>KeyError\<close> when the file has no line.\<close>

definition check_boundaries :: "(int \<times> int) list \<Rightarrow> error + unit" where
  "check_boundaries bs =
     (case bs of
        [] \<Rightarrow> Inl KeyError
      | (prev_beg, prev_end) # rest \<Rightarrow>
          if prev_end < prev_beg then Inl (Exit ''the max size is smaller than the min size'')
          else check_following prev_end rest)"

text \<open>\<^verbatim>\<open>for tmp_size in sizes: groups_sizes_dict[tmp_size] = g_index\<close>.\<close>

definition dict_set :: "'k \<Rightarrow> 'v \<Rightarrow> ('k \<times> 'v) list \<Rightarrow> ('k \<times> 'v) list" where
  "dict_set k v d = (if k \<in> fst ` set d then map (\<lambda>(k', v'). if k' = k then (k, v) else (k', v')) d
                     else d @ [(k, v)])"

definition fill_sizes :: "nat \<Rightarrow> int list \<Rightarrow> (int \<times> nat) list \<Rightarrow> (int \<times> nat) list" where
  "fill_sizes g_index sizes d = fold (\<lambda>tmp_size. dict_set tmp_size g_index) sizes d"

text \<open>\<^verbatim>\<open>max(groups_sizes_dict.keys())\<close>; it raises \<^verbatim>\<open>ValueError\<close> on an empty
  dictionary.\<close>

definition max_key :: "(int \<times> nat) list \<Rightarrow> error + int" where
  "max_key d = (if d = [] then Inl ValueError else Inr (Max (fst ` set d)))"

text \<open>The equivalency table between sizes and groups: the declared ranges, then the
  sizes left out below the largest key, then (unless that key is 100000) the sizes above
  it up to 100000; the last two get the index \<open>groups_number\<close> of the group "other".\<close>

definition build_sizes_dict :: "(int \<times> int) list \<Rightarrow> error + (int \<times> nat) list" where
  "build_sizes_dict bs =
     (let d1 = fold (\<lambda>(g_index, (tmp_beg, tmp_end)). fill_sizes g_index [tmp_beg..tmp_end])
                 (enumerate 0 bs) []
      in bind_err (max_key d1) (\<lambda>m1.
           let d2 = fill_sizes (length bs) (filter (\<lambda>s. s \<notin> fst ` set d1) [1..m1 - 1]) d1
           in bind_err (max_key d2) (\<lambda>m2.
                if m2 \<noteq> 100000 then Inr (fill_sizes (length bs) [m2 + 1..100000] d2)
                else Inr d2)))"

text \<open>The check on the colours: with more than one group and one colour for all of
  them, that colour must be the name of a colour map.\<close>

definition check_colours :: "string list \<Rightarrow> string list \<Rightarrow> error + unit" where
  "check_colours colormaps_possible cols =
     (if length cols > 1 \<and> card (set cols) = 1 \<and> hd cols \<notin> set colormaps_possible
      then Inl (Exit ''the same colour was specified for all groups or the colour map is not valid'')
      else Inr ())"

definition initialise_groups :: "string list \<Rightarrow> string list \<Rightarrow> error + groups" where
  "initialise_groups colormaps_possible lines =
     bind_err (map_err parse_group_line lines) (\<lambda>parsed.
     bind_err (check_boundaries (map fst parsed)) (\<lambda>_.
     bind_err (build_sizes_dict (map fst parsed)) (\<lambda>d.
     bind_err (check_colours colormaps_possible (map snd parsed)) (\<lambda>_.
       Inr \<lparr>groups_number = length lines,
            groups_boundaries = map fst parsed,
            groups_sizes_dict = d,
            colours_groups = map snd parsed\<rparr>))))"

text \<open>\<^verbatim>\<open>groups_sizes_dict[c_size]\<close>.\<close>

definition dict_get :: "('k \<times> 'v) list \<Rightarrow> 'k \<Rightarrow> error + 'v" where
  "dict_get d k = (case map_of d k of None \<Rightarrow> Inl KeyError | Some v \<Rightarrow> Inr v)"


definition valid_boundaries :: "(int \<times> int) list \<Rightarrow> bool" where
  "valid_boundaries bs =
     (bs \<noteq> [] \<and> (\<forall>i<length bs. fst (bs ! i) \<le> snd (bs ! i))
      \<and> (\<forall>i. Suc i < length bs \<longrightarrow> snd (bs ! i) < fst (bs ! Suc i)))"

subsection \<open>Loading the configuration: cutoff file, species check, group file\<close>

text \<open>
  The globals set while \<^verbatim>\<open>--nx_cutoff\<close> is read: whether it named a file, its value
  as a float when it has one, and the dictionary \<^verbatim>\<open>cog_cutoff_values\<close> from a pair
  of species indices to the cutoff.
\<close>

record cutoffs =
  nx_cutoff_file :: bool
  nx_cutoff :: "real option"
  cog_cutoff_values :: "((int \<times> int) \<times> real) list"

text \<open>One line \<^verbatim>\<open>specie1_index,specie2_index,cutoff\<close> of the cutoff file.
  \<open>py_float\<close> stands for Python's \<^verbatim>\<open>float\<close> on a string.\<close>

definition read_cutoff_line ::
  "(string \<Rightarrow> error + real) \<Rightarrow> string \<Rightarrow> error + (int \<times> int \<times> real)" where
  "read_cutoff_line py_float line0 =
     bind_err (strip_newline line0) (\<lambda>line.
       let l_content = split_on CHR '','' line
       in if length l_content \<noteq> 3 then Inl (Exit ''the format of the line is incorrect'')
          else bind_err (py_int (l_content ! 0)) (\<lambda>s1_index.
               bind_err (py_int (l_content ! 1)) (\<lambda>s2_index.
               bind_err (py_float (l_content ! 2)) (\<lambda>s1s2_cutoff.
                 Inr (s1_index, s2_index, s1s2_cutoff)))))"

text \<open>Storing the cutoff under both orders of the pair, and the two indices in
  \<^verbatim>\<open>s_indices\<close>.\<close>

definition store_cutoff ::
  "int \<times> int \<times> real \<Rightarrow> ((int \<times> int) \<times> real) list \<times> int list
     \<Rightarrow> ((int \<times> int) \<times> real) list \<times> int list" where
  "store_cutoff e acc =
     (case e of (s1_index, s2_index, s1s2_cutoff) \<Rightarrow>
        (dict_set (s2_index, s1_index) s1s2_cutoff
           (dict_set (s1_index, s2_index) s1s2_cutoff (fst acc)),
         snd acc @ [s1_index, s2_index]))"

definition read_cutoff_lines ::
  "(string \<Rightarrow> error + real) \<Rightarrow> string list
     \<Rightarrow> error + (((int \<times> int) \<times> real) list \<times> int list)" where
  "read_cutoff_lines py_float lines =
     fold_err (\<lambda>line acc. bind_err (read_cutoff_line py_float line) (\<lambda>e. Inr (store_cutoff e acc)))
       lines ([], [])"

text \<open>The check that there is no gap. \<^verbatim>\<open>min\<close> of an empty array raises
  \<^verbatim>\<open>ValueError\<close>.\<close>

definition check_cutoff_indices :: "((int \<times> int) \<times> real) list \<Rightarrow> int list \<Rightarrow> error + unit" where
  "check_cutoff_indices vals s_indices =
     (let s_indices_unique = np_unique s_indices
      in if s_indices_unique = [] then Inl ValueError
         else if Min (set s_indices_unique) \<noteq> 0
           then Inl (Exit ''species indexing should start at 0'')
         else if Max (set s_indices_unique) \<ge> int (length s_indices_unique)
           then Inl (Exit ''cutoff not specified for all species'')
         else if list_ex (\<lambda>s_index. list_ex (\<lambda>ss_index.
                    (int s_index, int ss_index) \<notin> fst ` set vals)
                      [0..<length s_indices_unique]) [0..<length s_indices_unique]
           then Inl (Exit ''cutoff not specified for all species'')
         else Inr ())"

text \<open>
  The \<^verbatim>\<open>try: float(args.nx_cutoff) except:\<close> block at module level. \<open>fs\<close> is the
  file system: the lines of each file that exists.
\<close>

definition load_nx_cutoff ::
  "(string \<Rightarrow> error + real) \<Rightarrow> (string \<rightharpoonup> string list) \<Rightarrow> string \<Rightarrow> error + cutoffs" where
  "load_nx_cutoff py_float fs arg =
     (case py_float arg of
        Inr v \<Rightarrow> Inr \<lparr>nx_cutoff_file = False, nx_cutoff = Some v, cog_cutoff_values = []\<rparr>
      | Inl _ \<Rightarrow>
          (case fs arg of
             None \<Rightarrow> Inl (Exit ''the --nx_cutoff should either be a float or a text file'')
           | Some lines \<Rightarrow>
               bind_err (read_cutoff_lines py_float lines) (\<lambda>acc.
               bind_err (check_cutoff_indices (fst acc) (snd acc)) (\<lambda>_.
                 Inr \<lparr>nx_cutoff_file = True, nx_cutoff = None, cog_cutoff_values = fst acc\<rparr>))))"

text \<open>
  The part of \<^verbatim>\<open>identify_proteins\<close> that compares the number of species found in
  the structure with the cutoffs read from the file.
\<close>

definition identify_proteins_cutoffs :: "nat \<Rightarrow> cutoffs \<Rightarrow> error + cutoffs" where
  "identify_proteins_cutoffs nb_species c =
     (if nx_cutoff_file c then
        (if real nb_species > sqrt (real (length (cog_cutoff_values c)))
         then Inl (Exit ''cutoff values not specified for some possible pair of species'')
         else if nb_species = 1
           then bind_err (dict_get (cog_cutoff_values c) (0, 0)) (\<lambda>v. Inr (c\<lparr>nx_cutoff := Some v\<rparr>))
         else Inr c)
      else Inr c)"

text \<open>
  Everything that is loaded before the frames: the check that the group file exists
  (among the sanity checks), the cutoffs, the species check, and the groups when a
  group file is given (\<^verbatim>\<open>args.cluster_groups_file != "no"\<close>).
\<close>

definition load_configuration ::
  "(string \<Rightarrow> error + real) \<Rightarrow> string list \<Rightarrow> (string \<rightharpoonup> string list) \<Rightarrow> string \<Rightarrow> string \<Rightarrow> nat
     \<Rightarrow> error + (cutoffs \<times> groups option)" where
  "load_configuration py_float colormaps_possible fs nx_cutoff_arg cluster_groups_file nb_species =
     (if cluster_groups_file \<noteq> ''no'' \<and> fs cluster_groups_file = None
      then Inl (Exit ''file not found'')
      else bind_err (load_nx_cutoff py_float fs nx_cutoff_arg) (\<lambda>c.
           bind_err (identify_proteins_cutoffs nb_species c) (\<lambda>c'.
             if cluster_groups_file \<noteq> ''no''
             then (case fs cluster_groups_file of
                     None \<Rightarrow> Inl (Exit ''file not found'')
                   | Some lines \<Rightarrow>
                       bind_err (initialise_groups colormaps_possible lines) (\<lambda>G. Inr (c', Some G)))
             else Inr (c', None))))"

text \<open>
  The loop over the frames. The body (detection and processing of the clusters of one
  frame) may raise; the loop returns the number of frames whose processing began,
  with the final state or the error.
\<close>

fun frames_loop ::
  "(nat \<Rightarrow> 's \<Rightarrow> error + 's) \<Rightarrow> nat list \<Rightarrow> 's \<Rightarrow> nat \<Rightarrow> nat \<times> (error + 's)" where
  "frames_loop body [] s n = (n, Inr s)"
| "frames_loop body (f_index # fs) s n =
     (case body f_index s of
        Inl e \<Rightarrow> (Suc n, Inl e)
      | Inr s' \<Rightarrow> frames_loop body fs s' (Suc n))"

text \<open>The script: load the configuration, initialise the data structures, then the
  frames.\<close>

definition run ::
  "(string \<Rightarrow> error + real) \<Rightarrow> string list \<Rightarrow> (string \<rightharpoonup> string list) \<Rightarrow> string \<Rightarrow> string \<Rightarrow> nat
     \<Rightarrow> (cutoffs \<times> groups option \<Rightarrow> 's) \<Rightarrow> (cutoffs \<times> groups option \<Rightarrow> nat \<Rightarrow> 's \<Rightarrow> error + 's)
     \<Rightarrow> nat \<Rightarrow> nat \<times> (error + 's)" where
  "run py_float colormaps_possible fs nx_cutoff_arg cluster_groups_file nb_species
       struct body nb_frames_to_process =
     (case load_configuration py_float colormaps_possible fs nx_cutoff_arg cluster_groups_file
             nb_species of
        Inl e \<Rightarrow> (0, Inl e)
      | Inr cfg \<Rightarrow> frames_loop (body cfg) [0..<nb_frames_to_process] (struct cfg) 0)"


text \<open>
  What the documentation calls a wrong cutoff file, for a system with \<open>nb_species\<close>
  species: a line that does not read as two integers and a float, or indices that do
  not start at 0, or a pair of species, among those of the system or among those the
  file names, without a cutoff.
\<close>

definition bad_cutoff_file :: "(string \<Rightarrow> error + real) \<Rightarrow> nat \<Rightarrow> string list \<Rightarrow> bool" where
  "bad_cutoff_file py_float nb_species lines =
     ((\<exists>l \<in> set lines. isl (read_cutoff_line py_float l))
      \<or> (\<exists>vals s_indices. read_cutoff_lines py_float lines = Inr (vals, s_indices)
            \<and> (s_indices = [] \<or> Min (set s_indices) \<noteq> 0
               \<or> (\<exists>s ss. s < nb_species \<and> ss < nb_species \<and> (int s, int ss) \<notin> fst ` set vals)
               \<or> (\<exists>s ss. s < card (set s_indices) \<and> ss < card (set s_indices)
                      \<and> (int s, int ss) \<notin> fst ` set vals))))"

text \<open>A wrong group file: its lines read, and a group has its max below its min, or
  a group begins at or below the end of the group before it.\<close>

definition bad_group_file :: "string list \<Rightarrow> bool" where
  "bad_group_file lines =
     (\<exists>parsed. map_err parse_group_line lines = Inr parsed
        \<and> ((\<exists>i<length parsed. snd (fst (parsed ! i)) < fst (fst (parsed ! i)))
           \<or> (\<exists>i. Suc i < length parsed \<and> fst (fst (parsed ! Suc i)) \<le> snd (fst (parsed ! i)))))"


text \<open>What holds of the dictionary and the index list while the cutoff file is read:
  no key is repeated, and every key is a pair of indices met so far.\<close>

definition cutoffs_inv :: "((int \<times> int) \<times> real) list \<times> int list \<Rightarrow> bool" where
  "cutoffs_inv acc = (distinct (map fst (fst acc)) \<and> fst ` set (fst acc) \<subseteq> set (snd acc) \<times> set (snd acc))"


subsection \<open>Arrays, masks and dictionaries\<close>

type_synonym matrix = "real list list"

type_synonym mask = "bool list list"

text \<open>\<^verbatim>\<open>np.zeros((r, c))\<close>, \<^verbatim>\<open>M < c\<close>, \<^verbatim>\<open>np.sum\<close> of a mask and of a matrix,
  and \<^verbatim>\<open>m.T\<close>.\<close>

definition np_zeros :: "nat \<Rightarrow> nat \<Rightarrow> matrix" where
  "np_zeros r c = replicate r (replicate c 0)"

definition less_than :: "matrix \<Rightarrow> real \<Rightarrow> mask" where
  "less_than M c = map (map (\<lambda>d. d < c)) M"

definition count_true :: "mask \<Rightarrow> nat" where
  "count_true m = sum_list (map (\<lambda>row. length (filter (\<lambda>b. b) row)) m)"

definition matrix_sum :: "matrix \<Rightarrow> real" where
  "matrix_sum M = sum_list (map sum_list M)"

definition np_T :: "mask \<Rightarrow> mask" where
  "np_T m = transpose m"

text \<open>\<^verbatim>\<open>M[m] += 1\<close>: indexing with a boolean mask of another shape raises
  \<^verbatim>\<open>IndexError\<close>.\<close>

definition same_shape :: "'a list list \<Rightarrow> 'b list list \<Rightarrow> bool" where
  "same_shape A B = (map length A = map length B)"

definition inc_mask :: "matrix \<Rightarrow> mask \<Rightarrow> matrix" where
  "inc_mask M m = map2 (\<lambda>row brow. map2 (\<lambda>x b. if b then x + 1 else x) row brow) M m"

definition inc_where :: "matrix \<Rightarrow> mask \<Rightarrow> error + matrix" where
  "inc_where M m = (if same_shape M m then Inr (inc_mask M m) else Inl IndexError)"

text \<open>\<^verbatim>\<open>v += w\<close> on vectors; different lengths raise \<^verbatim>\<open>ValueError\<close>.\<close>

definition vec_add :: "real list \<Rightarrow> real list \<Rightarrow> error + real list" where
  "vec_add v w = (if length v = length w then Inr (map2 (+) v w) else Inl ValueError)"

text \<open>\<^verbatim>\<open>d[k]\<close> on a dictionary.\<close>

definition lookup :: "('k \<rightharpoonup> 'v) \<Rightarrow> 'k \<Rightarrow> error + 'v" where
  "lookup d k = (case d k of None \<Rightarrow> Inl KeyError | Some v \<Rightarrow> Inr v)"

text \<open>\<^verbatim>\<open>a[i, j] += v\<close>, \<^verbatim>\<open>a[i, j, k] += v\<close> and \<^verbatim>\<open>a[i, idxs] = v\<close> on arrays
  (functions of the indices; the indices used are those of the proteins, species and
  frames the arrays were allocated for).\<close>

definition add2 :: "(nat \<Rightarrow> nat \<Rightarrow> real) \<Rightarrow> nat \<Rightarrow> nat \<Rightarrow> real \<Rightarrow> (nat \<Rightarrow> nat \<Rightarrow> real)" where
  "add2 a i j v = a(i := (a i)(j := a i j + v))"

definition add3 ::
  "(nat \<Rightarrow> nat \<Rightarrow> nat \<Rightarrow> real) \<Rightarrow> nat \<Rightarrow> nat \<Rightarrow> nat \<Rightarrow> real \<Rightarrow> (nat \<Rightarrow> nat \<Rightarrow> nat \<Rightarrow> real)" where
  "add3 a i j k v = a(i := (a i)(j := (a i j)(k := a i j k + v)))"

definition store_row :: "(nat \<Rightarrow> nat \<Rightarrow> int) \<Rightarrow> nat \<Rightarrow> nat list \<Rightarrow> int \<Rightarrow> (nat \<Rightarrow> nat \<Rightarrow> int)" where
  "store_row a f_index idxs v = fold (\<lambda>p_index b. b(f_index := (b f_index)(p_index := v))) idxs a"

subsection \<open>The data structures and the inputs of a frame\<close>

datatype leaflet = Lower | Upper

text \<open>
  The global accumulators (\<^verbatim>\<open>struct_proteins\<close>, \<^verbatim>\<open>struct_clusters\<close>). The
  contact dictionaries are keyed by the pair of species indices, then by the cluster
  size or the group index; \<open>clusters_comp\<close> is keyed by the cluster size, then by the
  composition tuple. The dictionaries by cluster size, whose keys the finalizer
  enumerates, are association lists without repeated keys.
\<close>

record state =
  proteins_size :: "nat \<Rightarrow> nat \<Rightarrow> int"
  proteins_group :: "nat \<Rightarrow> nat \<Rightarrow> int"
  proteins_nb_neighbours :: "nat \<Rightarrow> nat \<Rightarrow> nat \<Rightarrow> real"
  proteins_ctcts_prot :: "nat \<Rightarrow> nat \<Rightarrow> real"
  proteins_ctcts_res :: "nat \<times> nat \<rightharpoonup> matrix"
  proteins_ctcts_res_size :: "nat \<times> nat \<rightharpoonup> (nat \<times> matrix) list"
  proteins_ctcts_res_group :: "nat \<times> nat \<rightharpoonup> (nat \<rightharpoonup> matrix)"
  proteins_ctcts_res_lip_size :: "leaflet \<Rightarrow> nat \<rightharpoonup> (nat \<rightharpoonup> real list)"
  proteins_ctcts_res_lip_group :: "leaflet \<Rightarrow> nat \<rightharpoonup> (nat \<rightharpoonup> real list)"
  clusters_comp :: "nat \<rightharpoonup> (nat list \<rightharpoonup> nat)"

text \<open>
  What the cluster processing reads and does not change: the globals set by
  \<^verbatim>\<open>identify_proteins\<close> and the options, and, for the current frame, the graph and the
  distances that MDAnalysis computes from the coordinates:
  \<^item> \<open>neighbors p\<close> is \<^verbatim>\<open>network.neighbors(p)\<close>;
  \<^item> \<open>res_dist p pp\<close> is \<^verbatim>\<open>distance_array\<close> between the residue centroids of
    protein \<open>p\<close> (rows) and those of protein \<open>pp\<close> (columns);
  \<^item> \<open>atom_dists l p\<close> is \<^verbatim>\<open>distance_array\<close> between the atoms of protein \<open>p\<close>
    and the headgroups of leaflet \<open>l\<close>;
  \<^item> \<open>lip_dist l p\<close> is \<^verbatim>\<open>distance_array\<close> between the residue centroids of
    protein \<open>p\<close> and the headgroups of leaflet \<open>l\<close>, and \<open>nb_lip l\<close> the number of
    these headgroups;
  \<^item> \<open>cluster_groups\<close> is \<open>None\<close> when \<^verbatim>\<open>args.cluster_groups_file == "no"\<close>.
\<close>

record env =
  nb_species :: nat
  prot_index2sindex :: "nat \<Rightarrow> nat"
  proteins_length :: "nat \<Rightarrow> nat"
  res_contact :: real
  cluster_groups :: "groups option"
  neighbors :: "nat \<Rightarrow> nat list"
  res_dist :: "nat \<Rightarrow> nat \<Rightarrow> matrix"
  atom_dists :: "leaflet \<Rightarrow> nat \<Rightarrow> matrix"
  lip_dist :: "leaflet \<Rightarrow> nat \<Rightarrow> matrix"
  nb_lip :: "leaflet \<Rightarrow> nat"


subsection \<open>Contacts of one pair of neighbours\<close>

text \<open>\<^verbatim>\<open>proteins_ctcts_res[key][m] += 1\<close>.\<close>

definition add_contacts :: "nat \<times> nat \<Rightarrow> mask \<Rightarrow> state \<Rightarrow> error + state" where
  "add_contacts key m st =
     bind_err (lookup (proteins_ctcts_res st) key) (\<lambda>M.
     bind_err (inc_where M m) (\<lambda>M'.
       Inr (st\<lparr>proteins_ctcts_res := (proteins_ctcts_res st)(key \<mapsto> M')\<rparr>)))"

text \<open>The matrix of a cluster size is created, all zeros, the first time the size is
  met for the pair of species.\<close>

definition alloc_size :: "env \<Rightarrow> nat \<Rightarrow> nat \<Rightarrow> nat \<Rightarrow> state \<Rightarrow> error + state" where
  "alloc_size E p_s_index pp_s_index c_size st =
     bind_err (lookup (proteins_ctcts_res_size st) (min p_s_index pp_s_index, max p_s_index pp_s_index))
       (\<lambda>d. if c_size \<notin> fst ` set d then
                (if p_s_index < pp_s_index then
                   bind_err (lookup (proteins_ctcts_res_size st) (p_s_index, pp_s_index)) (\<lambda>d'.
                     Inr (st\<lparr>proteins_ctcts_res_size := (proteins_ctcts_res_size st)
                           ((p_s_index, pp_s_index) \<mapsto>
                              dict_set c_size (np_zeros (proteins_length E p_s_index)
                                                   (proteins_length E pp_s_index)) d')\<rparr>))
                 else
                   bind_err (lookup (proteins_ctcts_res_size st) (pp_s_index, p_s_index)) (\<lambda>d'.
                     Inr (st\<lparr>proteins_ctcts_res_size := (proteins_ctcts_res_size st)
                           ((pp_s_index, p_s_index) \<mapsto>
                              dict_set c_size (np_zeros (proteins_length E pp_s_index)
                                                   (proteins_length E p_s_index)) d')\<rparr>)))
              else Inr st)"

text \<open>\<^verbatim>\<open>proteins_ctcts_res_size[key][c_size][m] += 1\<close>.\<close>

definition add_contacts_size :: "nat \<times> nat \<Rightarrow> nat \<Rightarrow> mask \<Rightarrow> state \<Rightarrow> error + state" where
  "add_contacts_size key c_size m st =
     bind_err (lookup (proteins_ctcts_res_size st) key) (\<lambda>d.
     bind_err (dict_get d c_size) (\<lambda>M.
     bind_err (inc_where M m) (\<lambda>M'.
       Inr (st\<lparr>proteins_ctcts_res_size :=
                 (proteins_ctcts_res_size st)(key \<mapsto> dict_set c_size M' d)\<rparr>))))"

text \<open>\<^verbatim>\<open>proteins_ctcts_res_group[key][groups_sizes_dict[c_size]][m] += 1\<close>, when
  groups are given.\<close>

definition add_contacts_group :: "env \<Rightarrow> nat \<times> nat \<Rightarrow> nat \<Rightarrow> mask \<Rightarrow> state \<Rightarrow> error + state" where
  "add_contacts_group E key c_size m st =
     (case cluster_groups E of
        None \<Rightarrow> Inr st
      | Some G \<Rightarrow>
          bind_err (dict_get (groups_sizes_dict G) (int c_size)) (\<lambda>g.
          bind_err (lookup (proteins_ctcts_res_group st) key) (\<lambda>d.
          bind_err (lookup d g) (\<lambda>M.
          bind_err (inc_where M m) (\<lambda>M'.
            Inr (st\<lparr>proteins_ctcts_res_group :=
                      (proteins_ctcts_res_group st)(key \<mapsto> d(g \<mapsto> M'))\<rparr>))))))"

text \<open>The three accumulators, for one mask.\<close>

definition add_contacts_all ::
  "env \<Rightarrow> nat \<times> nat \<Rightarrow> nat \<Rightarrow> mask \<Rightarrow> state \<Rightarrow> error + state" where
  "add_contacts_all E key c_size m st =
     bind_err (add_contacts key m st) (\<lambda>st1.
     bind_err (add_contacts_size key c_size m st1) (\<lambda>st2.
       add_contacts_group E key c_size m st2))"

text \<open>
  The body of the loop over the neighbours for a pair not yet treated, in
  \<^verbatim>\<open>process_clusters\<close> and in \<^verbatim>\<open>process_clusters_TM\<close>: the neighbour tally of
  \<open>p_index\<close>, the residue contacts (the matrix of the size is created between the
  first and the second accumulator), the transposed mask when both proteins are of the
  same species, then the total contacts and the tally from the neighbour's side.
\<close>

definition treat_pair :: "env \<Rightarrow> nat \<Rightarrow> nat \<Rightarrow> nat \<Rightarrow> nat \<Rightarrow> state \<Rightarrow> error + state" where
  "treat_pair E f_index c_size p_index pp_index st =
     (let p_s_index = prot_index2sindex E p_index;
          pp_s_index = prot_index2sindex E pp_index;
          st0 = st\<lparr>proteins_nb_neighbours :=
                    add3 (proteins_nb_neighbours st) f_index p_index pp_s_index 1\<rparr>;
          dist_p_pp_matrix = (if p_s_index < pp_s_index then res_dist E p_index pp_index
                              else res_dist E pp_index p_index);
          m = less_than dist_p_pp_matrix (res_contact E);
          key = (min p_s_index pp_s_index, max p_s_index pp_s_index)
      in bind_err (add_contacts key m st0) (\<lambda>st1.
         bind_err (alloc_size E p_s_index pp_s_index c_size st1) (\<lambda>st2.
         bind_err (add_contacts_size key c_size m st2) (\<lambda>st3.
         bind_err (add_contacts_group E key c_size m st3) (\<lambda>st4.
         bind_err (if p_s_index = pp_s_index then add_contacts_all E key c_size (np_T m) st4
                   else Inr st4) (\<lambda>st5.
           Inr (st5\<lparr>proteins_ctcts_prot :=
                       add2 (add2 (proteins_ctcts_prot st5) p_index pp_index (real (count_true m)))
                            pp_index p_index (real (count_true m)),
                     proteins_nb_neighbours :=
                       add3 (proteins_nb_neighbours st5) f_index pp_index p_s_index 1\<rparr>)))))))"

subsection \<open>Contacts of a protein with the leaflets (\<^verbatim>\<open>process_clusters_TM\<close> only)\<close>

text \<open>The number of headgroups of leaflet \<open>l\<close> in contact with each residue of the
  protein: \<^verbatim>\<open>np.sum(pop, axis = 1)\<close>.\<close>

definition lip_pop :: "env \<Rightarrow> leaflet \<Rightarrow> nat \<Rightarrow> error + real list" where
  "lip_pop E l p_index =
     bind_err (inc_where (np_zeros (proteins_length E (prot_index2sindex E p_index)) (nb_lip E l))
                 (less_than (lip_dist E l p_index) (res_contact E)))
       (\<lambda>pop. Inr (map sum_list pop))"

definition add_lip_size :: "env \<Rightarrow> leaflet \<Rightarrow> nat \<Rightarrow> nat \<Rightarrow> real list \<Rightarrow> state \<Rightarrow> error + state" where
  "add_lip_size E l p_s_index c_size pop st =
     bind_err (lookup (proteins_ctcts_res_lip_size st l) p_s_index) (\<lambda>d.
       let v = (case d c_size of None \<Rightarrow> replicate (proteins_length E p_s_index) 0 | Some v \<Rightarrow> v)
       in bind_err (vec_add v pop) (\<lambda>v'.
            Inr (st\<lparr>proteins_ctcts_res_lip_size :=
                      (proteins_ctcts_res_lip_size st)
                        (l := (proteins_ctcts_res_lip_size st l)(p_s_index \<mapsto> d(c_size \<mapsto> v')))\<rparr>)))"

definition add_lip_group :: "leaflet \<Rightarrow> nat \<Rightarrow> nat \<Rightarrow> real list \<Rightarrow> state \<Rightarrow> error + state" where
  "add_lip_group l p_s_index g pop st =
     bind_err (lookup (proteins_ctcts_res_lip_group st l) p_s_index) (\<lambda>d.
     bind_err (lookup d g) (\<lambda>v.
     bind_err (vec_add v pop) (\<lambda>v'.
       Inr (st\<lparr>proteins_ctcts_res_lip_group :=
                 (proteins_ctcts_res_lip_group st)
                   (l := (proteins_ctcts_res_lip_group st l)(p_s_index \<mapsto> d(g \<mapsto> v')))\<rparr>))))"

definition lipid_step :: "env \<Rightarrow> nat \<Rightarrow> nat \<Rightarrow> state \<Rightarrow> error + state" where
  "lipid_step E c_size p_index st =
     (let p_s_index = prot_index2sindex E p_index
      in bind_err (lip_pop E Upper p_index) (\<lambda>pop_upper.
         bind_err (add_lip_size E Upper p_s_index c_size pop_upper st) (\<lambda>st1.
         bind_err (lip_pop E Lower p_index) (\<lambda>pop_lower.
         bind_err (add_lip_size E Lower p_s_index c_size pop_lower st1) (\<lambda>st2.
           case cluster_groups E of
             None \<Rightarrow> Inr st2
           | Some G \<Rightarrow>
               bind_err (dict_get (groups_sizes_dict G) (int c_size)) (\<lambda>g.
               bind_err (add_lip_group Upper p_s_index g pop_upper st2) (\<lambda>st3.
                 add_lip_group Lower p_s_index g pop_lower st3)))))))"

subsection \<open>The loops over a cluster\<close>

text \<open>
  The loop over the neighbours of \<open>p_index\<close>, carrying \<^verbatim>\<open>tmp_pairs_treated\<close>: a
  pair already in the list is skipped, a new one is treated and appended.
\<close>

definition neighbour_step ::
  "env \<Rightarrow> nat \<Rightarrow> nat \<Rightarrow> nat \<Rightarrow> nat \<Rightarrow> (nat \<times> nat) list \<times> state
     \<Rightarrow> error + ((nat \<times> nat) list \<times> state)" where
  "neighbour_step E f_index c_size p_index pp_index acc =
     (if (min p_index pp_index, max p_index pp_index) \<notin> set (fst acc)
      then bind_err (treat_pair E f_index c_size p_index pp_index (snd acc)) (\<lambda>st'.
             Inr (fst acc @ [(min p_index pp_index, max p_index pp_index)], st'))
      else Inr acc)"

text \<open>
  The loop over the proteins of the cluster, carrying \<^verbatim>\<open>tmp_comp\<close>,
  \<^verbatim>\<open>tmp_pairs_treated\<close> and the accumulators. \<open>leaflets\<close> tells
  \<^verbatim>\<open>process_clusters_TM\<close> (which first adds the contacts with the leaflets) from
  \<^verbatim>\<open>process_clusters\<close>. \<^verbatim>\<open>tmp_comp[p_s_index] += 1\<close> raises \<^verbatim>\<open>IndexError\<close>
  outside the list.
\<close>

definition protein_step ::
  "env \<Rightarrow> bool \<Rightarrow> nat \<Rightarrow> nat \<Rightarrow> nat \<Rightarrow> nat list \<times> (nat \<times> nat) list \<times> state
     \<Rightarrow> error + (nat list \<times> (nat \<times> nat) list \<times> state)" where
  "protein_step E leaflets f_index c_size p_index acc =
     (case acc of (tmp_comp, tmp_pairs_treated, st) \<Rightarrow>
        let p_s_index = prot_index2sindex E p_index
        in bind_err (if leaflets then lipid_step E c_size p_index st else Inr st) (\<lambda>st1.
           if p_s_index \<ge> length tmp_comp then Inl IndexError
           else bind_err (fold_err (neighbour_step E f_index c_size p_index) (neighbors E p_index)
                            (tmp_pairs_treated, st1))
                  (\<lambda>r. Inr (tmp_comp[p_s_index := tmp_comp ! p_s_index + 1], fst r, snd r))))"

definition cluster_loop ::
  "env \<Rightarrow> bool \<Rightarrow> nat \<Rightarrow> nat list \<Rightarrow> state \<Rightarrow> error + (nat list \<times> (nat \<times> nat) list \<times> state)" where
  "cluster_loop E leaflets f_index cluster st =
     fold_err (protein_step E leaflets f_index (length cluster)) cluster
       (replicate (nb_species E) 0, [], st)"

text \<open>Storing the composition of the cluster: the dictionary of the size and the
  count of the tuple are created when missing, then the count is incremented.\<close>

definition record_comp :: "nat \<Rightarrow> nat list \<Rightarrow> (nat \<rightharpoonup> (nat list \<rightharpoonup> nat)) \<Rightarrow> (nat \<rightharpoonup> (nat list \<rightharpoonup> nat))" where
  "record_comp c_size tmp_comp cc =
     (let cc1 = (if c_size \<notin> dom cc then cc(c_size \<mapsto> Map.empty) else cc);
          inner = (case cc1 c_size of None \<Rightarrow> Map.empty | Some d \<Rightarrow> d);
          inner1 = (if tmp_comp \<notin> dom inner then inner(tmp_comp \<mapsto> 0) else inner);
          n = (case inner1 tmp_comp of None \<Rightarrow> 0 | Some k \<Rightarrow> k)
      in cc1(c_size \<mapsto> inner1(tmp_comp \<mapsto> n + 1)))"

text \<open>Storing the size, and the group when groups are given, for every protein of
  the cluster.\<close>

definition store_size :: "env \<Rightarrow> nat \<Rightarrow> nat list \<Rightarrow> state \<Rightarrow> error + state" where
  "store_size E f_index cluster st =
     (let c_size = length cluster;
          st1 = st\<lparr>proteins_size := store_row (proteins_size st) f_index cluster (int c_size)\<rparr>
      in case cluster_groups E of
           None \<Rightarrow> Inr st1
         | Some G \<Rightarrow>
             bind_err (dict_get (groups_sizes_dict G) (int c_size)) (\<lambda>g.
               Inr (st1\<lparr>proteins_group := store_row (proteins_group st1) f_index cluster (int g)\<rparr>)))"

text \<open>What is done for a cluster when its contacts are accumulated: the body of the
  loop over the clusters in \<^verbatim>\<open>process_clusters\<close>, and the transmembrane case of
  \<^verbatim>\<open>process_clusters_TM\<close>.\<close>

definition accumulate_cluster :: "env \<Rightarrow> bool \<Rightarrow> nat \<Rightarrow> nat list \<Rightarrow> state \<Rightarrow> error + state" where
  "accumulate_cluster E leaflets f_index cluster st =
     bind_err (store_size E f_index cluster st) (\<lambda>st1.
     bind_err (cluster_loop E leaflets f_index cluster st1) (\<lambda>r.
       case r of (tmp_comp, tmp_pairs_treated, st2) \<Rightarrow>
         Inr (st2\<lparr>clusters_comp := record_comp (length cluster) tmp_comp (clusters_comp st2)\<rparr>)))"

text \<open>\<^verbatim>\<open>process_clusters\<close>, given the clusters
  \<^verbatim>\<open>sorted(nx.connected_components(network))\<close>.\<close>

definition process_clusters :: "env \<Rightarrow> nat \<Rightarrow> nat list list \<Rightarrow> state \<Rightarrow> error + state" where
  "process_clusters E f_index clusters st =
     fold_err (accumulate_cluster E False f_index) clusters st"

subsection \<open>Clusters and leaflets (\<^verbatim>\<open>process_clusters_TM\<close>)\<close>

datatype cluster_class = InterfacialLower | InterfacialUpper | Transmembrane

text \<open>\<^verbatim>\<open>np.min(..., axis = 1)\<close>: the minimum of each row; an empty row raises
  \<^verbatim>\<open>ValueError\<close>.\<close>

definition min_axis1 :: "matrix \<Rightarrow> error + real list" where
  "min_axis1 M = map_err (\<lambda>row. if row = [] then Inl ValueError else Inr (Min (set row))) M"

text \<open>\<^verbatim>\<open>dist = dist_min_upper - dist_min_lower\<close> over the atoms of the cluster, the
  proteins taken in the order of the cluster.\<close>

definition cluster_delta :: "env \<Rightarrow> nat list \<Rightarrow> error + real list" where
  "cluster_delta E cluster =
     (if cluster = [] then Inl IndexError
      else bind_err (min_axis1 (concat (map (atom_dists E Lower) cluster))) (\<lambda>dist_min_lower.
           bind_err (min_axis1 (concat (map (atom_dists E Upper) cluster))) (\<lambda>dist_min_upper.
             if length dist_min_upper \<noteq> length dist_min_lower then Inl ValueError
             else Inr (map2 (-) dist_min_upper dist_min_lower))))"

text \<open>The three cases, in the order of the \<^verbatim>\<open>if\<close>, \<^verbatim>\<open>elif\<close>, \<^verbatim>\<open>else\<close>.\<close>

definition classify :: "real list \<Rightarrow> cluster_class" where
  "classify delta =
     (if length (filter (\<lambda>d. d > 0) delta) = length delta then InterfacialLower
      else if length (filter (\<lambda>d. d > 0) delta) = 0 then InterfacialUpper
      else Transmembrane)"

definition store_interfacial :: "env \<Rightarrow> nat \<Rightarrow> nat list \<Rightarrow> int \<Rightarrow> int \<Rightarrow> state \<Rightarrow> state" where
  "store_interfacial E f_index cluster size_code group_code st =
     (let st1 = st\<lparr>proteins_size := store_row (proteins_size st) f_index cluster size_code\<rparr>
      in case cluster_groups E of
           None \<Rightarrow> st1
         | Some G \<Rightarrow> st1\<lparr>proteins_group := store_row (proteins_group st1) f_index cluster group_code\<rparr>)"

definition process_cluster_TM :: "env \<Rightarrow> nat \<Rightarrow> nat list \<Rightarrow> state \<Rightarrow> error + state" where
  "process_cluster_TM E f_index cluster st =
     bind_err (cluster_delta E cluster) (\<lambda>delta.
       case classify delta of
         InterfacialLower \<Rightarrow> Inr (store_interfacial E f_index cluster (- 1) (- 1) st)
       | InterfacialUpper \<Rightarrow>
           Inr (store_interfacial E f_index cluster 99999
                  (case cluster_groups E of None \<Rightarrow> 0 | Some G \<Rightarrow> int (groups_number G) + 1) st)
       | Transmembrane \<Rightarrow> accumulate_cluster E True f_index cluster st)"

definition process_clusters_TM :: "env \<Rightarrow> nat \<Rightarrow> nat list list \<Rightarrow> state \<Rightarrow> error + state" where
  "process_clusters_TM E f_index clusters st =
     fold_err (process_cluster_TM E f_index) clusters st"


subsection \<open>Normalisation of the residue contacts (\<^verbatim>\<open>calculate_statistics\<close>)\<close>

text \<open>Division by a float; dividing by zero is an error of the model.\<close>

definition np_div :: "real \<Rightarrow> real \<Rightarrow> error + real" where
  "np_div x y = (if y = 0 then Inl ZeroDivisionError else Inr (x / y))"

text \<open>\<^verbatim>\<open>if np.sum(M) > 0: M = M / float(np.sum(M)) * 100\<close>.\<close>

definition normalise :: "matrix \<Rightarrow> error + matrix" where
  "normalise M =
     (if matrix_sum M > 0
      then bind_err (map_err (map_err (\<lambda>x. np_div x (matrix_sum M))) M) (\<lambda>Q.
             Inr (map (map (\<lambda>q. q * 100)) Q))
      else Inr M)"

text \<open>The body of the two loops over the species: the overall matrix of the pair,
  its matrix for every cluster size sampled, and, when groups are given, its matrix for
  every group index below \<open>groups_number\<close>.\<close>

definition normalise_groups :: "nat \<Rightarrow> (nat \<rightharpoonup> matrix) \<Rightarrow> error + (nat \<rightharpoonup> matrix)" where
  "normalise_groups n d =
     fold_err (\<lambda>g_index d'. bind_err (lookup d' g_index) (\<lambda>M.
                 bind_err (normalise M) (\<lambda>M'. Inr (d'(g_index \<mapsto> M')))))
       [0..<n] d"

definition normalise_pair :: "env \<Rightarrow> nat \<times> nat \<Rightarrow> state \<Rightarrow> error + state" where
  "normalise_pair E key st =
     bind_err (lookup (proteins_ctcts_res st) key) (\<lambda>M.
     bind_err (normalise M) (\<lambda>M'.
     bind_err (lookup (proteins_ctcts_res_size st) key) (\<lambda>d.
     bind_err (map_err (\<lambda>e. bind_err (normalise (snd e)) (\<lambda>N. Inr (fst e, N))) d) (\<lambda>d'.
     bind_err (case cluster_groups E of
                 None \<Rightarrow> Inr (proteins_ctcts_res_group st)
               | Some G \<Rightarrow>
                   bind_err (lookup (proteins_ctcts_res_group st) key) (\<lambda>dg.
                   bind_err (normalise_groups (groups_number G) dg) (\<lambda>dg'.
                     Inr ((proteins_ctcts_res_group st)(key \<mapsto> dg'))))) (\<lambda>rg.
       Inr (st\<lparr>proteins_ctcts_res := (proteins_ctcts_res st)(key \<mapsto> M'),
               proteins_ctcts_res_size := (proteins_ctcts_res_size st)(key \<mapsto> d'),
               proteins_ctcts_res_group := rg\<rparr>))))))"

text \<open>\<^verbatim>\<open>for s_index1 in range(0,nb_species): for s_index2 in range(s_index1, nb_species)\<close>.\<close>

definition species_pairs :: "nat \<Rightarrow> (nat \<times> nat) list" where
  "species_pairs n = concat (map (\<lambda>s_index1. map (\<lambda>s_index2. (s_index1, s_index2)) [s_index1..<n]) [0..<n])"

definition normalise_contacts :: "env \<Rightarrow> state \<Rightarrow> error + state" where
  "normalise_contacts E st = fold_err (normalise_pair E) (species_pairs (nb_species E)) st"

text \<open>
  What the claim on normalisation asks of the matrix \<open>M'\<close> that replaces \<open>M\<close>: with a
  total other than zero, every entry divided by the total and multiplied by 100, and
  the entries summing to 100; with a zero total, the matrix unchanged and all zeros.
\<close>

definition scaled_to_100 :: "matrix \<Rightarrow> matrix \<Rightarrow> bool" where
  "scaled_to_100 M M' =
     (if matrix_sum M \<noteq> 0
      then M' = map (map (\<lambda>x. x / matrix_sum M * 100)) M \<and> matrix_sum M' = 100
      else M' = M \<and> (\<forall>row \<in> set M. \<forall>x \<in> set row. x = 0))"

text \<open>The entries of a matrix of counts are not negative.\<close>

definition counts :: "matrix \<Rightarrow> bool" where
  "counts M = (\<forall>row \<in> set M. \<forall>x \<in> set row. 0 \<le> x)"


text \<open>The matrix that normalisation leaves, and the accumulators after the
  normalisation of the pairs of species in \<open>K\<close>.\<close>

definition normalised :: "matrix \<Rightarrow> matrix" where
  "normalised M = (if matrix_sum M > 0 then map (map (\<lambda>x. x / matrix_sum M * 100)) M else M)"

definition normalised_state :: "env \<Rightarrow> (nat \<times> nat) set \<Rightarrow> state \<Rightarrow> state" where
  "normalised_state E K st =
     st\<lparr>proteins_ctcts_res :=
          (\<lambda>k. if k \<in> K then map_option normalised (proteins_ctcts_res st k)
               else proteins_ctcts_res st k),
        proteins_ctcts_res_size :=
          (\<lambda>k. if k \<in> K
               then map_option (map (\<lambda>e. (fst e, normalised (snd e)))) (proteins_ctcts_res_size st k)
               else proteins_ctcts_res_size st k),
        proteins_ctcts_res_group :=
          (\<lambda>k. case cluster_groups E of
                 None \<Rightarrow> proteins_ctcts_res_group st k
               | Some G \<Rightarrow>
                   if k \<in> K
                   then map_option (\<lambda>dg g. if g < groups_number G then map_option normalised (dg g)
                                            else dg g) (proteins_ctcts_res_group st k)
                   else proteins_ctcts_res_group st k)\<rparr>"

text \<open>
  What \<^verbatim>\<open>struct_proteins\<close> and the accumulation guarantee before the finalizer runs:
  for every pair of species \<open>s1 \<le> s2\<close> there is the overall matrix, the dictionary by
  size and, when groups are given, a matrix for each group index below
  \<open>groups_number\<close>; and every matrix holds counts.
\<close>

definition contacts_allocated :: "env \<Rightarrow> state \<Rightarrow> bool" where
  "contacts_allocated E st =
     (\<forall>s1 s2. s1 \<le> s2 \<and> s2 < nb_species E \<longrightarrow>
        proteins_ctcts_res st (s1, s2) \<noteq> None
      \<and> proteins_ctcts_res_size st (s1, s2) \<noteq> None
      \<and> (\<forall>G. cluster_groups E = Some G \<longrightarrow>
            (\<exists>dg. proteins_ctcts_res_group st (s1, s2) = Some dg
                \<and> (\<forall>g<groups_number G. dg g \<noteq> None))))"

definition contacts_are_counts :: "state \<Rightarrow> bool" where
  "contacts_are_counts st =
     ((\<forall>k M. proteins_ctcts_res st k = Some M \<longrightarrow> counts M)
      \<and> (\<forall>k d e. proteins_ctcts_res_size st k = Some d \<and> e \<in> set d \<longrightarrow> counts (snd e))
      \<and> (\<forall>k dg g M. proteins_ctcts_res_group st k = Some dg \<and> dg g = Some M \<longrightarrow> counts M))"


subsection \<open>A small system for the examples\<close>

text \<open>
  One species of two-residue proteins, one size group (sizes 1 to 3), no leaflet; in
  the frame, proteins 0 and 1 are neighbours, with one residue pair in contact
  (residue 0 of the first with residue 1 of the second), and protein 2 is alone.
\<close>

definition example_groups :: groups where
  "example_groups =
     \<lparr>groups_number = 1, groups_boundaries = [(1, 3)],
      groups_sizes_dict = [(1, 0), (2, 0), (3, 0)], colours_groups = [''red'']\<rparr>"

definition example_env :: env where
  "example_env =
     \<lparr>nb_species = 1,
      prot_index2sindex = (\<lambda>p. 0),
      proteins_length = (\<lambda>s. 2),
      res_contact = 8,
      cluster_groups = Some example_groups,
      neighbors = (\<lambda>p. if p = 0 then [1] else if p = 1 then [0] else []),
      res_dist = (\<lambda>p pp. [[20, 5], [20, 20]]),
      atom_dists = (\<lambda>l p. [[10]]),
      lip_dist = (\<lambda>l p. [[10], [10]]),
      nb_lip = (\<lambda>l. 1)\<rparr>"

text \<open>The accumulators as \<^verbatim>\<open>struct_proteins\<close> and \<^verbatim>\<open>struct_clusters\<close> create
  them.\<close>

definition example_initial :: state where
  "example_initial =
     \<lparr>proteins_size = (\<lambda>f p. 0),
      proteins_group = (\<lambda>f p. 0),
      proteins_nb_neighbours = (\<lambda>f p s. 0),
      proteins_ctcts_prot = (\<lambda>p pp. 0),
      proteins_ctcts_res = [(0, 0) \<mapsto> np_zeros 2 2],
      proteins_ctcts_res_size = [(0, 0) \<mapsto> []],
      proteins_ctcts_res_group = [(0, 0) \<mapsto> [0 \<mapsto> np_zeros 2 2]],
      proteins_ctcts_res_lip_size = (\<lambda>l. [0 \<mapsto> Map.empty]),
      proteins_ctcts_res_lip_group = (\<lambda>l. [0 \<mapsto> [0 \<mapsto> [0, 0]]]),
      clusters_comp = Map.empty\<rparr>"

text \<open>Accumulators after some frames: three contacts at one residue pair and one at
  another overall, all of them in clusters of size 2; size 3 was met without contact.\<close>

definition example_counted :: state where
  "example_counted =
     example_initial
       \<lparr>proteins_ctcts_res := [(0, 0) \<mapsto> [[0, 1], [3, 0]]],
        proteins_ctcts_res_size := [(0, 0) \<mapsto> [(2, [[0, 1], [3, 0]]), (3, [[0, 0], [0, 0]])]],
        proteins_ctcts_res_group := [(0, 0) \<mapsto> [0 \<mapsto> [[0, 1], [3, 0]]]]\<rparr>"


text \<open>The same, for one pair of species.\<close>

definition key_allocated :: "env \<Rightarrow> state \<Rightarrow> nat \<times> nat \<Rightarrow> bool" where
  "key_allocated E st k =
     (proteins_ctcts_res st k \<noteq> None \<and> proteins_ctcts_res_size st k \<noteq> None
      \<and> (\<forall>G. cluster_groups E = Some G \<longrightarrow>
            (\<exists>dg. proteins_ctcts_res_group st k = Some dg \<and> (\<forall>g<groups_number G. dg g \<noteq> None))))"


subsection \<open>Composition statistics (\<^verbatim>\<open>calculate_statistics\<close>)\<close>

text \<open>
  One step of the incremental algorithm for species \<open>s_index\<close> and a cluster of
  composition \<open>cmp\<close> and size \<open>c_size\<close>, on the three arrays \<^verbatim>\<open>tmp_n\<close>,
  \<^verbatim>\<open>tmp_mean\<close>, \<^verbatim>\<open>tmp_M2\<close>.
\<close>

definition welford_species ::
  "nat \<Rightarrow> nat list \<Rightarrow> nat \<Rightarrow> real list \<times> real list \<times> real list
     \<Rightarrow> error + (real list \<times> real list \<times> real list)" where
  "welford_species c_size cmp s_index acc =
     (case acc of (tmp_n, tmp_mean, tmp_M2) \<Rightarrow>
        if s_index \<ge> length cmp then Inl IndexError
        else if c_size = 0 then Inl ZeroDivisionError
        else let n' = tmp_n ! s_index + 1;
                 delta = real (cmp ! s_index) / real c_size - tmp_mean ! s_index;
                 mean' = tmp_mean ! s_index + delta / n';
                 M2' = tmp_M2 ! s_index + delta * (real (cmp ! s_index) / real c_size - mean')
             in Inr (tmp_n[s_index := n'], tmp_mean[s_index := mean'], tmp_M2[s_index := M2']))"

text \<open>\<^verbatim>\<open>for comp, nb in items: for n in range(0, nb): for s_index in range(0, nb_species)\<close>.\<close>

definition welford_items ::
  "nat \<Rightarrow> nat \<Rightarrow> (nat list \<times> nat) list \<Rightarrow> real list \<times> real list \<times> real list
     \<Rightarrow> error + (real list \<times> real list \<times> real list)" where
  "welford_items n_sp c_size items acc =
     fold_err (\<lambda>item acc1.
        fold_err (\<lambda>n acc2. fold_err (welford_species c_size (fst item)) [0..<n_sp] acc2)
          [0..<snd item] acc1)
       items acc"

text \<open>
  The loop that writes the row of the averages and the row of the standard
  deviations: \<^verbatim>\<open>clusters_comp_avg[c_index, :] = tmp_mean * 100\<close> and, when
  \<^verbatim>\<open>tmp_n[s_index] > 0\<close>,
  \<^verbatim>\<open>clusters_comp_std[c_index, :] = np.sqrt(tmp_M2[s_index] / float(tmp_n[s_index])) * 100\<close>;
  both assign the whole row.
\<close>

definition report_rows ::
  "nat \<Rightarrow> real list \<times> real list \<times> real list \<Rightarrow> real list \<times> real list" where
  "report_rows n_sp acc =
     (case acc of (tmp_n, tmp_mean, tmp_M2) \<Rightarrow>
        fold (\<lambda>s_index rows.
                (map (\<lambda>m. m * 100) tmp_mean,
                 if tmp_n ! s_index > 0
                 then replicate n_sp (sqrt (tmp_M2 ! s_index / tmp_n ! s_index) * 100)
                 else snd rows))
          [0..<n_sp] (replicate n_sp 0, replicate n_sp 0))"

text \<open>
  The rows \<^verbatim>\<open>clusters_comp_avg[c_index, :]\<close> and \<^verbatim>\<open>clusters_comp_std[c_index, :]\<close>
  for the sampled size \<open>c_size\<close>; \<open>items\<close> is \<^verbatim>\<open>clusters_comp[c_size].items()\<close>. The
  rows of the two interfacial codes stay zero.
\<close>

definition comp_stats_size ::
  "nat \<Rightarrow> int \<Rightarrow> (nat list \<times> nat) list \<Rightarrow> error + (real list \<times> real list)" where
  "comp_stats_size n_sp c_size items =
     (if c_size \<noteq> - 1 \<and> c_size \<noteq> 99999
      then bind_err (welford_items n_sp (nat c_size) items
                       (replicate n_sp 0, replicate n_sp 0, replicate n_sp 0))
             (\<lambda>acc. Inr (report_rows n_sp acc))
      else Inr (replicate n_sp 0, replicate n_sp 0))"

text \<open>
  The same for a group: \<open>sized_items\<close> holds, for every sampled transmembrane size
  that maps to the group, in ascending order, the size with the items of
  \<^verbatim>\<open>clusters_comp\<close> for it; the arrays run on from one size to the next.
\<close>

definition comp_stats_group ::
  "nat \<Rightarrow> (nat \<times> (nat list \<times> nat) list) list \<Rightarrow> error + (real list \<times> real list)" where
  "comp_stats_group n_sp sized_items =
     bind_err (fold_err (\<lambda>si acc. welford_items n_sp (fst si) (snd si) acc) sized_items
                 (replicate n_sp 0, replicate n_sp 0, replicate n_sp 0))
       (\<lambda>acc. Inr (report_rows n_sp acc))"

text \<open>
  What the claim on the composition statistics describes: for each species, its own
  standard deviation, \<open>sqrt (M2 / n)\<close> of that species, times 100.
\<close>

definition own_std :: "nat \<Rightarrow> real list \<times> real list \<times> real list \<Rightarrow> real list" where
  "own_std n_sp acc =
     (case acc of (tmp_n, tmp_mean, tmp_M2) \<Rightarrow>
        map (\<lambda>s_index. if tmp_n ! s_index > 0
                        then sqrt (tmp_M2 ! s_index / tmp_n ! s_index) * 100 else 0) [0..<n_sp])"


text \<open>
  Names for what the body of the loop computes for the pair \<open>p\<close>, \<open>pp\<close>: the key of
  the species pair (lower species index first), the contact mask (rows: the residues of
  the protein of the lower species), what the pair adds to a matrix of the key, and how
  much that adds to its total.
\<close>

definition pair_key :: "env \<Rightarrow> nat \<Rightarrow> nat \<Rightarrow> nat \<times> nat" where
  "pair_key E p pp =
     (min (prot_index2sindex E p) (prot_index2sindex E pp),
      max (prot_index2sindex E p) (prot_index2sindex E pp))"

definition pair_mask :: "env \<Rightarrow> nat \<Rightarrow> nat \<Rightarrow> mask" where
  "pair_mask E p pp =
     less_than (if prot_index2sindex E p < prot_index2sindex E pp then res_dist E p pp
                else res_dist E pp p) (res_contact E)"

definition pair_added :: "env \<Rightarrow> nat \<Rightarrow> nat \<Rightarrow> matrix \<Rightarrow> matrix" where
  "pair_added E p pp M =
     (if prot_index2sindex E p = prot_index2sindex E pp
      then inc_mask (inc_mask M (pair_mask E p pp)) (np_T (pair_mask E p pp))
      else inc_mask M (pair_mask E p pp))"

definition pair_total :: "env \<Rightarrow> nat \<Rightarrow> nat \<Rightarrow> nat" where
  "pair_total E p pp =
     (if prot_index2sindex E p = prot_index2sindex E pp then 2 * count_true (pair_mask E p pp)
      else count_true (pair_mask E p pp))"


section \<open>Properties\<close>

subsection \<open>The density-based detector\<close>



lemma set_np_unique [simp]: "set (np_unique xs) = set xs"
  by (simp add: np_unique_def)

lemma distinct_np_unique [simp]: "distinct (np_unique xs)"
  by (simp add: np_unique_def)










subsection \<open>The size groups\<close>




lemma keys_dict_set: "fst ` set (dict_set k v d) = insert k (fst ` set d)"
proof (cases "k \<in> fst ` set d")
  case True
  have "fst ` set (map (\<lambda>(k', v'). if k' = k then (k, v) else (k', v')) d) = fst ` set d"
    by (induction d) (auto split: prod.splits)
  with True show ?thesis by (auto simp: dict_set_def)
next
  case False
  then show ?thesis by (auto simp: dict_set_def)
qed








lemma max_key_Inr: "max_key d = Inr m \<longleftrightarrow> d \<noteq> [] \<and> m = Max (fst ` set d)"
  by (auto simp: max_key_def)



lemma valid_boundaries_single: "valid_boundaries [b] \<longleftrightarrow> fst b \<le> snd b"
  by (simp add: valid_boundaries_def)

lemma valid_boundaries_Cons_Cons:
  "valid_boundaries (a # b # bs) \<longleftrightarrow> fst a \<le> snd a \<and> snd a < fst b \<and> valid_boundaries (b # bs)"
proof -
  have 1: "(\<forall>i<length (a # b # bs). fst ((a # b # bs) ! i) \<le> snd ((a # b # bs) ! i))
        \<longleftrightarrow> fst a \<le> snd a \<and> (\<forall>i<length (b # bs). fst ((b # bs) ! i) \<le> snd ((b # bs) ! i))"
  proof -
    have *: "(\<forall>i<length xs. fst (xs ! i) \<le> snd (xs ! i)) \<longleftrightarrow> (\<forall>x\<in>set xs. fst x \<le> snd x)"
      for xs :: "(int \<times> int) list"
      by (simp add: all_set_conv_all_nth)
    show ?thesis unfolding * by simp
  qed
  have 2: "(\<forall>i. Suc i < length (a # b # bs) \<longrightarrow> snd ((a # b # bs) ! i) < fst ((a # b # bs) ! Suc i))
        \<longleftrightarrow> snd a < fst b \<and> (\<forall>i. Suc i < length (b # bs) \<longrightarrow> snd ((b # bs) ! i) < fst ((b # bs) ! Suc i))"
    (is "?L \<longleftrightarrow> ?R")
  proof
    assume l: ?L
    have "snd a < fst b" using l [rule_format, of 0] by simp
    moreover have "\<And>i. Suc i < length (b # bs) \<Longrightarrow> snd ((b # bs) ! i) < fst ((b # bs) ! Suc i)"
      using l [rule_format, of "Suc _"] by simp
    ultimately show ?R by blast
  next
    assume r: ?R
    show ?L
    proof (intro allI impI)
      fix i assume "Suc i < length (a # b # bs)"
      then show "snd ((a # b # bs) ! i) < fst ((a # b # bs) ! Suc i)"
        using r by (cases i) auto
    qed
  qed
  show ?thesis unfolding valid_boundaries_def 1 2 by auto
qed

lemma check_following_iff:
  "q \<le> p \<Longrightarrow> check_following p bs = Inr () \<longleftrightarrow> valid_boundaries ((q, p) # bs)"
proof (induction bs arbitrary: p q)
  case Nil
  then show ?case by (simp add: valid_boundaries_single)
next
  case (Cons b bs)
  obtain lo hi where b: "b = (lo, hi)" by (cases b)
  show ?case
  proof (cases "lo \<le> hi")
    case True
    from Cons.IH [OF True] Cons.prems True show ?thesis
      by (auto simp: b valid_boundaries_Cons_Cons)
  next
    case False
    then have "\<not> valid_boundaries ((lo, hi) # bs)"
      by (auto simp: valid_boundaries_def)
    with False show ?thesis by (auto simp: b valid_boundaries_Cons_Cons)
  qed
qed

lemma check_boundaries_iff: "check_boundaries bs = Inr () \<longleftrightarrow> valid_boundaries bs"
proof (cases bs)
  case Nil
  then show ?thesis by (simp add: check_boundaries_def valid_boundaries_def)
next
  case (Cons b rest)
  obtain lo hi where b: "b = (lo, hi)" by (cases b)
  show ?thesis
  proof (cases "lo \<le> hi")
    case True
    then show ?thesis
      using check_following_iff [OF True, of rest] by (simp add: Cons b check_boundaries_def)
  next
    case False
    then have "\<not> valid_boundaries ((lo, hi) # rest)"
      by (auto simp: valid_boundaries_def)
    with False show ?thesis by (simp add: Cons b check_boundaries_def)
  qed
qed



















subsection \<open>Loading the configuration\<close>


lemma fold_err_fails:
  assumes "\<exists>x \<in> set xs. isl (g x)"
  shows "isl (fold_err (\<lambda>x acc. bind_err (g x) (\<lambda>e. Inr (h e acc))) xs s)"
  using assms
proof (induction xs arbitrary: s)
  case Nil
  then show ?case by simp
next
  case (Cons x xs)
  show ?case
  proof (cases "g x")
    case (Inl e)
    then show ?thesis by (simp add: bind_err_def)
  next
    case (Inr y)
    then have "\<exists>x \<in> set xs. isl (g x)" using Cons.prems by auto
    from Cons.IH [OF this] Inr show ?thesis by (simp add: bind_err_def)
  qed
qed

lemma fold_err_invariant:
  assumes "fold_err (\<lambda>x acc. bind_err (g x) (\<lambda>e. Inr (h e acc))) xs s = Inr s'"
    and "P s" and "\<And>e acc. P acc \<Longrightarrow> P (h e acc)"
  shows "P s'"
  using assms(1,2)
proof (induction xs arbitrary: s)
  case Nil
  then show ?case by simp
next
  case (Cons x xs)
  then obtain y where y: "g x = Inr y"
    by (cases "g x") (simp_all add: bind_err_def)
  with Cons.prems have "fold_err (\<lambda>x acc. bind_err (g x) (\<lambda>e. Inr (h e acc))) xs (h y s) = Inr s'"
    by (simp add: bind_err_def)
  from Cons.IH [OF this] assms(3) Cons.prems(2) show ?case by blast
qed

lemma distinct_dict_set: "distinct (map fst d) \<Longrightarrow> distinct (map fst (dict_set k v d))"
proof (cases "k \<in> fst ` set d")
  case True
  have "map fst (map (\<lambda>(k', v'). if k' = k then (k, v) else (k', v')) d) = map fst d"
    by (induction d) (auto split: prod.splits)
  moreover assume "distinct (map fst d)"
  ultimately show ?thesis using True by (simp add: dict_set_def del: map_map)
next
  case False
  moreover assume "distinct (map fst d)"
  ultimately show ?thesis by (simp add: dict_set_def)
qed

lemma store_cutoff_inv: "cutoffs_inv acc \<Longrightarrow> cutoffs_inv (store_cutoff e acc)"
  by (cases e) (auto simp: cutoffs_inv_def store_cutoff_def distinct_dict_set keys_dict_set)

lemma read_cutoff_lines_inv:
  assumes "read_cutoff_lines py_float lines = Inr (vals, s_indices)"
  shows "distinct (map fst vals)" and "fst ` set vals \<subseteq> set s_indices \<times> set s_indices"
proof -
  have "cutoffs_inv (vals, s_indices)"
    using assms unfolding read_cutoff_lines_def
    by (rule fold_err_invariant) (simp_all add: cutoffs_inv_def store_cutoff_inv [unfolded cutoffs_inv_def])
  then show "distinct (map fst vals)" and "fst ` set vals \<subseteq> set s_indices \<times> set s_indices"
    by (simp_all add: cutoffs_inv_def)
qed

lemma length_np_unique: "length (np_unique xs) = card (set xs)"
  by (simp add: np_unique_def length_remdups_card_conv)

lemma check_cutoff_indices_Inr:
  assumes "check_cutoff_indices vals s_indices = Inr ()"
  shows "s_indices \<noteq> []" and "Min (set s_indices) = 0"
    and "\<forall>x \<in> set s_indices. 0 \<le> x \<and> x < int (card (set s_indices))"
    and "\<forall>s<card (set s_indices). \<forall>ss<card (set s_indices). (int s, int ss) \<in> fst ` set vals"
proof -
  have u: "np_unique s_indices \<noteq> []" "Min (set s_indices) = 0"
      "Max (set s_indices) < int (card (set s_indices))"
      "\<not> list_ex (\<lambda>s_index. list_ex (\<lambda>ss_index. (int s_index, int ss_index) \<notin> fst ` set vals)
            [0..<card (set s_indices)]) [0..<card (set s_indices)]"
    using assms by (auto simp: check_cutoff_indices_def Let_def length_np_unique split: if_splits)
  show ne: "s_indices \<noteq> []" using u(1) by (auto simp: np_unique_def)
  show "Min (set s_indices) = 0" by (rule u(2))
  show "\<forall>x \<in> set s_indices. 0 \<le> x \<and> x < int (card (set s_indices))"
  proof
    fix x assume x: "x \<in> set s_indices"
    have "Min (set s_indices) \<le> x" using x by simp
    moreover have "x \<le> Max (set s_indices)" using x by simp
    ultimately show "0 \<le> x \<and> x < int (card (set s_indices))" using u(2,3) by linarith
  qed
  show "\<forall>s<card (set s_indices). \<forall>ss<card (set s_indices). (int s, int ss) \<in> fst ` set vals"
    using u(4) by (auto simp: list_ex_iff)
qed

lemma validated_keys_card:
  assumes "read_cutoff_lines py_float lines = Inr (vals, s_indices)"
    and "check_cutoff_indices vals s_indices = Inr ()"
  shows "length vals \<le> card (set s_indices) * card (set s_indices)"
proof -
  let ?k = "card (set s_indices)"
  have "fst ` set vals \<subseteq> set s_indices \<times> set s_indices"
    by (rule read_cutoff_lines_inv(2) [OF assms(1)])
  then have "card (fst ` set vals) \<le> card (set s_indices \<times> set s_indices)"
    by (intro card_mono) simp_all
  moreover have "card (fst ` set vals) = length vals"
    using read_cutoff_lines_inv(1) [OF assms(1)] by (metis distinct_card length_map set_map)
  ultimately show ?thesis by (simp add: card_cartesian_product)
qed

lemma identify_rejects_missing_pair:
  assumes "read_cutoff_lines py_float lines = Inr (vals, s_indices)"
    and "check_cutoff_indices vals s_indices = Inr ()"
    and "s < n_species" "ss < n_species" "(int s, int ss) \<notin> fst ` set vals"
  shows "real n_species > sqrt (real (length vals))"
proof -
  let ?k = "card (set s_indices)"
  have "\<not> (s < ?k \<and> ss < ?k)"
    using check_cutoff_indices_Inr(4) [OF assms(2)] assms(5) by blast
  then have k: "?k < n_species" using assms(3,4) by linarith
  have "sqrt (real (length vals)) \<le> sqrt (real (?k * ?k))"
    using validated_keys_card [OF assms(1,2)] by (simp only: real_sqrt_le_iff of_nat_le_iff)
  also have "\<dots> = real ?k" by simp
  also have "\<dots> < real n_species" using k by simp
  finally show ?thesis .
qed

lemma bad_cutoff_file_rejected:
  assumes "isl (py_float arg)" "fs arg = Some lines" "bad_cutoff_file py_float n_species lines"
  shows "isl (bind_err (load_nx_cutoff py_float fs arg) (identify_proteins_cutoffs n_species))"
proof (cases "read_cutoff_lines py_float lines")
  case (Inl e)
  then show ?thesis using assms(1,2)
    by (auto simp: load_nx_cutoff_def bind_err_def split: sum.splits)
next
  case (Inr acc)
  obtain vals s_indices where acc: "acc = (vals, s_indices)" by (cases acc)
  have r: "read_cutoff_lines py_float lines = Inr (vals, s_indices)" using Inr acc by simp
  have no_bad_line: "\<not> (\<exists>l \<in> set lines. isl (read_cutoff_line py_float l))"
    using fold_err_fails [of lines "read_cutoff_line py_float" store_cutoff "([], [])"] r
    by (auto simp: read_cutoff_lines_def)
  show ?thesis
  proof (cases "check_cutoff_indices vals s_indices")
    case (Inl e)
    then show ?thesis using assms(1,2) r
      by (auto simp: load_nx_cutoff_def bind_err_def split: sum.splits)
  next
    case (Inr u)
    then have c: "check_cutoff_indices vals s_indices = Inr ()" by simp
    from assms(3) no_bad_line r
    consider "s_indices = [] \<or> Min (set s_indices) \<noteq> 0"
      | s ss where "s < n_species" "ss < n_species" "(int s, int ss) \<notin> fst ` set vals"
      | s ss where "s < card (set s_indices)" "ss < card (set s_indices)" "(int s, int ss) \<notin> fst ` set vals"
      unfolding bad_cutoff_file_def by auto
    then show ?thesis
    proof cases
      case 1
      then show ?thesis using check_cutoff_indices_Inr(1,2) [OF c] by blast
    next
      case 2
      have "real n_species > sqrt (real (length vals))"
        by (rule identify_rejects_missing_pair [OF r c 2])
      then show ?thesis using assms(1,2) r c
        by (auto simp: load_nx_cutoff_def bind_err_def identify_proteins_cutoffs_def split: sum.splits)
    next
      case 3
      then show ?thesis using check_cutoff_indices_Inr(4) [OF c] by blast
    qed
  qed
qed

lemma bad_group_file_rejected:
  assumes "bad_group_file lines"
  shows "isl (initialise_groups colormaps_possible lines)"
proof -
  obtain parsed where p: "map_err parse_group_line lines = Inr parsed"
    and bad: "(\<exists>i<length parsed. snd (fst (parsed ! i)) < fst (fst (parsed ! i)))
           \<or> (\<exists>i. Suc i < length parsed \<and> fst (fst (parsed ! Suc i)) \<le> snd (fst (parsed ! i)))"
    using assms unfolding bad_group_file_def by blast
  have "\<not> valid_boundaries (map fst parsed)"
    using bad unfolding valid_boundaries_def by (auto simp: not_le not_less) 
  then have "isl (check_boundaries (map fst parsed))"
    using check_boundaries_iff [of "map fst parsed"] by (cases "check_boundaries (map fst parsed)") auto
  then show ?thesis using p
    by (auto simp: initialise_groups_def bind_err_def split: sum.splits)
qed

text \<open>
  C9. Configuration errors are fatal before any frame: when \<^verbatim>\<open>--nx_cutoff\<close> names
  a file that has a malformed line, or whose indices do not start at 0, or that leaves a
  pair of species (of the system, or of those it names) without a cutoff, or when the
  group file has a max below its min or boundaries that overlap or do not increase, the
  run ends with an error and no frame has been processed.
\<close>

theorem configuration_errors_stop_before_frames:
  assumes "(isl (py_float nx_cutoff_arg) \<and> (\<exists>lines. fs nx_cutoff_arg = Some lines
               \<and> bad_cutoff_file py_float n_species lines))
         \<or> (cluster_groups_file \<noteq> ''no'' \<and> (\<exists>lines. fs cluster_groups_file = Some lines
               \<and> bad_group_file lines))"
  shows "fst (run py_float colormaps_possible fs nx_cutoff_arg cluster_groups_file n_species
                struct body nb_frames_to_process) = 0
       \<and> isl (snd (run py_float colormaps_possible fs nx_cutoff_arg cluster_groups_file n_species
                struct body nb_frames_to_process))"
proof -
  have "isl (load_configuration py_float colormaps_possible fs nx_cutoff_arg cluster_groups_file n_species)"
    using assms
  proof (elim disjE conjE exE)
    fix lines
    assume a: "isl (py_float nx_cutoff_arg)" "fs nx_cutoff_arg = Some lines"
      "bad_cutoff_file py_float n_species lines"
    have "isl (bind_err (load_nx_cutoff py_float fs nx_cutoff_arg) (identify_proteins_cutoffs n_species))"
      using a by (rule bad_cutoff_file_rejected)
    then show ?thesis
      by (auto simp: load_configuration_def bind_err_def split: sum.splits)
  next
    fix lines
    assume "cluster_groups_file \<noteq> ''no''" "fs cluster_groups_file = Some lines" "bad_group_file lines"
    then show ?thesis
      using bad_group_file_rejected [of lines colormaps_possible]
      by (auto simp: load_configuration_def bind_err_def split: sum.splits)
  qed
  then show ?thesis by (auto simp: run_def split: sum.splits)
qed


lemma example_cutoff_lines:
  "read_cutoff_lines (\<lambda>s. map_sum id real_of_int (py_int s)) [''1,1,60\<newline>'']
     = Inr ([((1, 1), 60)], [1, 1])"
  by (simp add: read_cutoff_lines_def read_cutoff_line_def strip_newline_def bind_err_def
        py_int_def strip_def is_space_def is_digit_def digits_value_def store_cutoff_def dict_set_def)

lemma example_cutoff_bad:
  "bad_cutoff_file (\<lambda>s. map_sum id real_of_int (py_int s)) 1 [''1,1,60\<newline>'']"
  unfolding bad_cutoff_file_def example_cutoff_lines by simp

theorem configuration_errors_stop_before_frames_witness:
  "bad_cutoff_file (\<lambda>s. map_sum id real_of_int (py_int s)) 1 [''1,1,60\<newline>'']
   \<and> fst (run (\<lambda>s. map_sum id real_of_int (py_int s)) [] [''cutoffs.txt'' \<mapsto> [''1,1,60\<newline>'']]
            ''cutoffs.txt'' ''no'' 1 (\<lambda>cfg. (0::nat)) (\<lambda>cfg f_index s. Inr (Suc s)) 10) = 0
   \<and> isl (snd (run (\<lambda>s. map_sum id real_of_int (py_int s)) [] [''cutoffs.txt'' \<mapsto> [''1,1,60\<newline>'']]
            ''cutoffs.txt'' ''no'' 1 (\<lambda>cfg. (0::nat)) (\<lambda>cfg f_index s. Inr (Suc s)) 10))"
proof -
  have f: "isl ((\<lambda>s. map_sum id real_of_int (py_int s)) ''cutoffs.txt'')"
    by (simp add: py_int_def strip_def is_space_def is_digit_def)
  have h: "(isl ((\<lambda>s. map_sum id real_of_int (py_int s)) ''cutoffs.txt'')
            \<and> (\<exists>lines. [''cutoffs.txt'' \<mapsto> [''1,1,60\<newline>'']] ''cutoffs.txt'' = Some lines
               \<and> bad_cutoff_file (\<lambda>s. map_sum id real_of_int (py_int s)) 1 lines))
         \<or> (''no'' \<noteq> ''no'' \<and> (\<exists>lines. [''cutoffs.txt'' \<mapsto> [''1,1,60\<newline>'']] ''no'' = Some lines
               \<and> bad_group_file lines))"
    using f example_cutoff_bad by simp
  from configuration_errors_stop_before_frames [OF h] example_cutoff_bad show ?thesis by blast
qed

subsection \<open>Normalisation of the residue contacts\<close>


lemma map_err_total: "(\<And>x. x \<in> set xs \<Longrightarrow> f x = Inr (g x)) \<Longrightarrow> map_err f xs = Inr (map g xs)"
  by (induction xs) simp_all

lemma normalise_eq: "normalise M = Inr (normalised M)"
proof (cases "matrix_sum M > 0")
  case True
  have "map_err (map_err (\<lambda>x. np_div x (matrix_sum M))) M = Inr (map (map (\<lambda>x. x / matrix_sum M)) M)"
    using True by (intro map_err_total) (simp_all add: np_div_def)
  with True show ?thesis by (simp add: normalise_def normalised_def bind_err_def comp_def)
next
  case False
  then show ?thesis by (simp add: normalise_def normalised_def)
qed

lemma matrix_sum_scale: "matrix_sum (map (map (\<lambda>x. x / s * 100)) M) = matrix_sum M / s * 100"
proof -
  have row: "sum_list (map (\<lambda>x. x * 100 / s) r) = sum_list r * 100 / s" for r :: "real list"
    by (induction r) (simp_all add: add_divide_distrib distrib_right)
  show ?thesis unfolding matrix_sum_def
    by (induction M) (simp_all add: row add_divide_distrib distrib_right)
qed

lemma counts_sum_nonneg: "counts M \<Longrightarrow> 0 \<le> matrix_sum M"
  unfolding counts_def matrix_sum_def
  by (intro sum_list_nonneg) (auto intro: sum_list_nonneg)

lemma counts_sum_zero:
  assumes "counts M" "matrix_sum M = 0"
  shows "\<forall>row \<in> set M. \<forall>x \<in> set row. x = 0"
proof -
  have rows: "\<forall>r \<in> set (map sum_list M). 0 \<le> r"
    using assms(1) unfolding counts_def by (auto intro: sum_list_nonneg)
  then have "\<forall>r \<in> set (map sum_list M). r = 0"
    using sum_list_nonneg_eq_0_iff [of "map sum_list M"] assms(2) unfolding matrix_sum_def by blast
  then have "\<forall>row \<in> set M. sum_list row = 0" by simp
  then show ?thesis
    using assms(1) unfolding counts_def by (metis sum_list_nonneg_eq_0_iff)
qed

lemma normalise_scaled:
  assumes "counts M" "normalise M = Inr M'"
  shows "scaled_to_100 M M'"
proof (cases "matrix_sum M = 0")
  case True
  then show ?thesis
    using assms counts_sum_zero [OF assms(1) True] by (simp add: normalise_eq normalised_def scaled_to_100_def)
next
  case False
  then have pos: "matrix_sum M > 0" using counts_sum_nonneg [OF assms(1)] by simp
  then have M': "M' = map (map (\<lambda>x. x / matrix_sum M * 100)) M"
    using assms(2) unfolding normalise_eq normalised_def by simp
  have "matrix_sum M' = matrix_sum M / matrix_sum M * 100"
    unfolding M' by (rule matrix_sum_scale)
  then have "matrix_sum M' = 100" using False by simp
  with M' False show ?thesis unfolding scaled_to_100_def by simp
qed


lemma fold_err_append: "fold_err f (xs @ ys) s = bind_err (fold_err f xs s) (fold_err f ys)"
  by (induction xs arbitrary: s) (simp_all add: bind_err_def split: sum.splits)

lemma normalise_groups_eq:
  assumes "\<forall>g<n. d g \<noteq> None"
  shows "normalise_groups n d = Inr (\<lambda>g. if g < n then map_option normalised (d g) else d g)"
  using assms
proof (induction n)
  case 0
  show ?case by (simp add: normalise_groups_def)
next
  case (Suc n)
  then obtain M where M: "d n = Some M" by auto
  have IH: "fold_err (\<lambda>g_index d'. bind_err (lookup d' g_index) (\<lambda>M.
                 bind_err (normalise M) (\<lambda>M'. Inr (d'(g_index \<mapsto> M'))))) [0..<n] d
            = Inr (\<lambda>g. if g < n then map_option normalised (d g) else d g)"
    using Suc by (simp add: normalise_groups_def)
  have "(\<lambda>g. if g < n then map_option normalised (d g) else d g)(n \<mapsto> normalised M)
        = (\<lambda>g. if g < Suc n then map_option normalised (d g) else d g)"
    using M by (auto simp: fun_eq_iff less_Suc_eq)
  then show ?case
    unfolding normalise_groups_def upt_Suc_append [OF le0] fold_err_append IH
    by (simp add: bind_err_def lookup_def M normalise_eq)
qed

lemma map_err_normalise:
  "map_err (\<lambda>e. bind_err (normalise (snd e)) (\<lambda>N. Inr (fst e, N))) d
     = Inr (map (\<lambda>e. (fst e, normalised (snd e))) d)"
  by (rule map_err_total) (simp add: normalise_eq bind_err_def)

lemma map_err_Inr_fun: "map_err (\<lambda>e. Inr (g e)) d = Inr (map g d)"
  by (rule map_err_total) simp

lemma normalise_pair_eq:
  assumes "key_allocated E st k"
  shows "normalise_pair E k st = Inr (normalised_state E {k} st)"
proof -
  obtain M d where M: "proteins_ctcts_res st k = Some M" and d: "proteins_ctcts_res_size st k = Some d"
    using assms unfolding key_allocated_def by auto
  show ?thesis
  proof (cases "cluster_groups E")
    case None
    have "(proteins_ctcts_res st)(k \<mapsto> normalised M)
            = (\<lambda>k'. if k' \<in> {k} then map_option normalised (proteins_ctcts_res st k') else proteins_ctcts_res st k')"
      using M by (auto simp: fun_eq_iff)
    moreover have "(proteins_ctcts_res_size st)(k \<mapsto> map (\<lambda>e. (fst e, normalised (snd e))) d)
            = (\<lambda>k'. if k' \<in> {k} then map_option (map (\<lambda>e. (fst e, normalised (snd e)))) (proteins_ctcts_res_size st k')
                    else proteins_ctcts_res_size st k')"
      using d by (auto simp: fun_eq_iff)
    ultimately show ?thesis
      unfolding normalise_pair_def normalised_state_def
      by (simp add: None M d lookup_def bind_err_def normalise_eq map_err_Inr_fun)
  next
    case (Some G)
    obtain dg where dg: "proteins_ctcts_res_group st k = Some dg" "\<forall>g<groups_number G. dg g \<noteq> None"
      using assms Some unfolding key_allocated_def by auto
    have "(proteins_ctcts_res st)(k \<mapsto> normalised M)
            = (\<lambda>k'. if k' \<in> {k} then map_option normalised (proteins_ctcts_res st k') else proteins_ctcts_res st k')"
      using M by (auto simp: fun_eq_iff)
    moreover have "(proteins_ctcts_res_size st)(k \<mapsto> map (\<lambda>e. (fst e, normalised (snd e))) d)
            = (\<lambda>k'. if k' \<in> {k} then map_option (map (\<lambda>e. (fst e, normalised (snd e)))) (proteins_ctcts_res_size st k')
                    else proteins_ctcts_res_size st k')"
      using d by (auto simp: fun_eq_iff)
    moreover have "(proteins_ctcts_res_group st)(k \<mapsto> (\<lambda>g. if g < groups_number G then map_option normalised (dg g) else dg g))
            = (\<lambda>k'. if k' \<in> {k}
                   then map_option (\<lambda>dg g. if g < groups_number G then map_option normalised (dg g) else dg g)
                          (proteins_ctcts_res_group st k')
                   else proteins_ctcts_res_group st k')"
      using dg by (auto simp: fun_eq_iff)
    ultimately show ?thesis
      unfolding normalise_pair_def normalised_state_def
      by (simp add: Some M d dg lookup_def bind_err_def normalise_eq map_err_Inr_fun
            normalise_groups_eq [OF dg(2)])
  qed
qed

lemma key_allocated_normalised_state:
  "k \<notin> K \<Longrightarrow> key_allocated E (normalised_state E K st) k = key_allocated E st k"
  by (auto simp: key_allocated_def normalised_state_def split: option.splits)

lemma normalised_state_insert:
  "k \<notin> K \<Longrightarrow> normalised_state E K (normalised_state E {k} st) = normalised_state E (insert k K) st"
  unfolding normalised_state_def
  by (cases "cluster_groups E") (auto simp: fun_eq_iff)

lemma fold_normalise_pair:
  assumes "distinct ks" "\<forall>k \<in> set ks. key_allocated E st k"
  shows "fold_err (normalise_pair E) ks st = Inr (normalised_state E (set ks) st)"
  using assms
proof (induction ks arbitrary: st)
  case Nil
  show ?case by (cases "cluster_groups E") (simp_all add: normalised_state_def)
next
  case (Cons k ks)
  have k: "key_allocated E st k" "k \<notin> set ks" "distinct ks" using Cons.prems by auto
  have "\<forall>k' \<in> set ks. key_allocated E (normalised_state E {k} st) k'"
  proof
    fix k' assume k': "k' \<in> set ks"
    then have "k' \<notin> {k}" using k(2) by auto
    from key_allocated_normalised_state [OF this] Cons.prems(2) k'
    show "key_allocated E (normalised_state E {k} st) k'" by simp
  qed
  from Cons.IH [OF k(3) this] show ?case
    by (simp add: normalise_pair_eq [OF k(1)] normalised_state_insert [OF k(2)])
qed

lemma inj_on_pairs_from: "inj_on (\<lambda>s_index1. map (Pair s_index1) [s_index1..<n]) {0..<n}"
proof (rule inj_onI)
  fix x y :: nat assume x: "x \<in> {0..<n}" and y: "y \<in> {0..<n}"
    and eq: "map (Pair x) [x..<n] = map (Pair y) [y..<n]"
  have "[x..<n] = x # [Suc x..<n]" "[y..<n] = y # [Suc y..<n]"
    using x y by (simp_all add: upt_conv_Cons)
  then have "map (Pair x) [x..<n] = (x, x) # map (Pair x) [Suc x..<n]"
      "map (Pair y) [y..<n] = (y, y) # map (Pair y) [Suc y..<n]" by simp_all
  with eq have "(x, x) = (y, y)" by (metis list.inject)
  then show "x = y" by simp
qed

lemma distinct_species_pairs: "distinct (species_pairs n)"
  unfolding species_pairs_def
proof (rule distinct_concat)
  have "distinct [0..<n]" by simp
  then show "distinct (map (\<lambda>s_index1. map (Pair s_index1) [s_index1..<n]) [0..<n])"
    unfolding distinct_map using inj_on_pairs_from [of n] by simp
next
  fix ys assume "ys \<in> set (map (\<lambda>s_index1. map (Pair s_index1) [s_index1..<n]) [0..<n])"
  then obtain a where "ys = map (Pair a) [a..<n]" unfolding set_map by blast
  then show "distinct ys" by (simp add: distinct_map inj_on_def)
next
  fix ys zs
  assume "ys \<in> set (map (\<lambda>s_index1. map (Pair s_index1) [s_index1..<n]) [0..<n])"
    "zs \<in> set (map (\<lambda>s_index1. map (Pair s_index1) [s_index1..<n]) [0..<n])" "ys \<noteq> zs"
  then obtain a b where ab: "ys = map (Pair a) [a..<n]" "zs = map (Pair b) [b..<n]" "a \<noteq> b"
    unfolding set_map by blast
  show "set ys \<inter> set zs = {}" unfolding ab(1,2) using ab(3) by auto
qed

lemma set_species_pairs: "set (species_pairs n) = {(s1, s2). s1 \<le> s2 \<and> s2 < n}"
proof (rule set_eqI)
  fix x :: "nat \<times> nat"
  obtain a b where x: "x = (a, b)" by (cases x)
  have "(a, b) \<in> set (species_pairs n) \<longleftrightarrow> (\<exists>s\<in>{0..<n}. (a, b) \<in> Pair s ` {s..<n})"
    by (simp add: species_pairs_def)
  also have "\<dots> \<longleftrightarrow> a \<le> b \<and> b < n"
  proof
    assume "\<exists>s\<in>{0..<n}. (a, b) \<in> Pair s ` {s..<n}"
    then obtain s where "s < n" "(a, b) \<in> Pair s ` {s..<n}" by (elim bexE) simp
    then show "a \<le> b \<and> b < n" by auto
  next
    assume ab: "a \<le> b \<and> b < n"
    then have "a \<in> {0..<n}" "(a, b) \<in> Pair a ` {a..<n}" by auto
    then show "\<exists>s\<in>{0..<n}. (a, b) \<in> Pair s ` {s..<n}" by blast
  qed
  finally show "x \<in> set (species_pairs n) \<longleftrightarrow> x \<in> {(s1, s2). s1 \<le> s2 \<and> s2 < n}"
    by (simp add: x)
qed

lemma fold_err_never:
  "(\<And>x s. f x s \<noteq> Inl e) \<Longrightarrow> fold_err f xs s \<noteq> Inl e"
  by (induction xs arbitrary: s) (auto split: sum.splits)

lemma normalise_groups_never: "normalise_groups n d \<noteq> Inl ZeroDivisionError"
  unfolding normalise_groups_def
  by (rule fold_err_never) (auto simp: lookup_def bind_err_def normalise_eq split: option.splits)

lemma normalise_pair_never: "normalise_pair E k st \<noteq> Inl ZeroDivisionError"
  using normalise_groups_never
  by (auto simp: normalise_pair_def lookup_def bind_err_def normalise_eq map_err_Inr_fun
           split: option.splits sum.splits)

lemma normalise_contacts_never: "normalise_contacts E st \<noteq> Inl ZeroDivisionError"
  unfolding normalise_contacts_def by (rule fold_err_never) (rule normalise_pair_never)

lemma normalise_contacts_eq:
  assumes "contacts_allocated E st"
  shows "normalise_contacts E st = Inr (normalised_state E (set (species_pairs (nb_species E))) st)"
  unfolding normalise_contacts_def
proof (rule fold_normalise_pair [OF distinct_species_pairs])
  show "\<forall>k \<in> set (species_pairs (nb_species E)). key_allocated E st k"
    using assms unfolding contacts_allocated_def key_allocated_def set_species_pairs by auto
qed

lemma normalised_scaled: "counts M \<Longrightarrow> scaled_to_100 M (normalised M)"
  by (rule normalise_scaled) (simp_all add: normalise_eq)

text \<open>
  C4. Normalisation never divides by zero, whatever the accumulators hold. When the
  accumulators are allocated and hold counts, the finalizer returns, and for every pair
  of species \<open>s1 \<le> s2\<close> the overall matrix, the matrix of every cluster size sampled
  and (with groups) the matrix of every group index below \<open>groups_number\<close> is
  replaced as follows: with a total other than zero, every entry is divided by the
  total and multiplied by 100, and the entries sum to 100 (in exact arithmetic); with
  a zero total the matrix is unchanged, all zeros.
\<close>

theorem contact_matrices_normalised:
  "normalise_contacts E st \<noteq> Inl ZeroDivisionError
   \<and> (contacts_allocated E st \<and> contacts_are_counts st \<longrightarrow>
        (\<exists>st'. normalise_contacts E st = Inr st'
           \<and> (\<forall>s1 s2. s1 \<le> s2 \<and> s2 < nb_species E \<longrightarrow>
                (\<exists>M M'. proteins_ctcts_res st (s1, s2) = Some M
                      \<and> proteins_ctcts_res st' (s1, s2) = Some M' \<and> scaled_to_100 M M')
              \<and> (\<exists>d d'. proteins_ctcts_res_size st (s1, s2) = Some d
                      \<and> proteins_ctcts_res_size st' (s1, s2) = Some d'
                      \<and> map fst d' = map fst d
                      \<and> (\<forall>i<length d. scaled_to_100 (snd (d ! i)) (snd (d' ! i))))
              \<and> (\<forall>G. cluster_groups E = Some G \<longrightarrow>
                    (\<exists>dg dg'. proteins_ctcts_res_group st (s1, s2) = Some dg
                       \<and> proteins_ctcts_res_group st' (s1, s2) = Some dg'
                       \<and> (\<forall>g<groups_number G. \<exists>M M'. dg g = Some M \<and> dg' g = Some M'
                              \<and> scaled_to_100 M M'))))))"
proof (intro conjI impI)
  show "normalise_contacts E st \<noteq> Inl ZeroDivisionError" by (rule normalise_contacts_never)
next
  assume a: "contacts_allocated E st \<and> contacts_are_counts st"
  let ?K = "set (species_pairs (nb_species E))"
  let ?st' = "normalised_state E ?K st"
  have eq: "normalise_contacts E st = Inr ?st'" using a by (simp add: normalise_contacts_eq)
  have "(\<exists>M M'. proteins_ctcts_res st (s1, s2) = Some M
                      \<and> proteins_ctcts_res ?st' (s1, s2) = Some M' \<and> scaled_to_100 M M')
              \<and> (\<exists>d d'. proteins_ctcts_res_size st (s1, s2) = Some d
                      \<and> proteins_ctcts_res_size ?st' (s1, s2) = Some d'
                      \<and> map fst d' = map fst d
                      \<and> (\<forall>i<length d. scaled_to_100 (snd (d ! i)) (snd (d' ! i))))
              \<and> (\<forall>G. cluster_groups E = Some G \<longrightarrow>
                    (\<exists>dg dg'. proteins_ctcts_res_group st (s1, s2) = Some dg
                       \<and> proteins_ctcts_res_group ?st' (s1, s2) = Some dg'
                       \<and> (\<forall>g<groups_number G. \<exists>M M'. dg g = Some M \<and> dg' g = Some M'
                              \<and> scaled_to_100 M M')))"
    if s: "s1 \<le> s2 \<and> s2 < nb_species E" for s1 s2
  proof (intro conjI allI impI)
    have inK: "(s1, s2) \<in> ?K" using s by (simp add: set_species_pairs)
    obtain M d where M: "proteins_ctcts_res st (s1, s2) = Some M"
      and d: "proteins_ctcts_res_size st (s1, s2) = Some d"
      using a s unfolding contacts_allocated_def by blast
    have cM: "counts M" using a M unfolding contacts_are_counts_def by blast
    have cd: "\<And>e. e \<in> set d \<Longrightarrow> counts (snd e)" using a d unfolding contacts_are_counts_def by blast
    show "\<exists>M M'. proteins_ctcts_res st (s1, s2) = Some M
                      \<and> proteins_ctcts_res ?st' (s1, s2) = Some M' \<and> scaled_to_100 M M'"
      using M inK normalised_scaled [OF cM] by (simp add: normalised_state_def)
    have "\<forall>i<length d. scaled_to_100 (snd (d ! i)) (snd (map (\<lambda>e. (fst e, normalised (snd e))) d ! i))"
      using cd by (simp add: normalised_scaled)
    then show "\<exists>d d'. proteins_ctcts_res_size st (s1, s2) = Some d
                      \<and> proteins_ctcts_res_size ?st' (s1, s2) = Some d'
                      \<and> map fst d' = map fst d
                      \<and> (\<forall>i<length d. scaled_to_100 (snd (d ! i)) (snd (d' ! i)))"
      using d inK by (simp add: normalised_state_def comp_def)
    fix G assume G: "cluster_groups E = Some G"
    obtain dg where dg: "proteins_ctcts_res_group st (s1, s2) = Some dg" "\<forall>g<groups_number G. dg g \<noteq> None"
      using a s G unfolding contacts_allocated_def by blast
    have "\<exists>M M'. dg g = Some M \<and> (if g < groups_number G then map_option normalised (dg g) else dg g) = Some M'
              \<and> scaled_to_100 M M'" if g: "g < groups_number G" for g
    proof -
      obtain M where Mg: "dg g = Some M" using dg(2) g by auto
      have "counts M" using a dg(1) Mg unfolding contacts_are_counts_def by blast
      from normalised_scaled [OF this] Mg g show ?thesis by simp
    qed
    then show "\<exists>dg dg'. proteins_ctcts_res_group st (s1, s2) = Some dg
                       \<and> proteins_ctcts_res_group ?st' (s1, s2) = Some dg'
                       \<and> (\<forall>g<groups_number G. \<exists>M M'. dg g = Some M \<and> dg' g = Some M'
                              \<and> scaled_to_100 M M')"
      using dg(1) inK G by (simp add: normalised_state_def)
  qed
  with eq show "\<exists>st'. normalise_contacts E st = Inr st'
           \<and> (\<forall>s1 s2. s1 \<le> s2 \<and> s2 < nb_species E \<longrightarrow>
                (\<exists>M M'. proteins_ctcts_res st (s1, s2) = Some M
                      \<and> proteins_ctcts_res st' (s1, s2) = Some M' \<and> scaled_to_100 M M')
              \<and> (\<exists>d d'. proteins_ctcts_res_size st (s1, s2) = Some d
                      \<and> proteins_ctcts_res_size st' (s1, s2) = Some d'
                      \<and> map fst d' = map fst d
                      \<and> (\<forall>i<length d. scaled_to_100 (snd (d ! i)) (snd (d' ! i))))
              \<and> (\<forall>G. cluster_groups E = Some G \<longrightarrow>
                    (\<exists>dg dg'. proteins_ctcts_res_group st (s1, s2) = Some dg
                       \<and> proteins_ctcts_res_group st' (s1, s2) = Some dg'
                       \<and> (\<forall>g<groups_number G. \<exists>M M'. dg g = Some M \<and> dg' g = Some M'
                              \<and> scaled_to_100 M M'))))"
    by blast
qed

lemma example_counted_allocated: "contacts_allocated example_env example_counted"
  by (auto simp: contacts_allocated_def example_env_def example_counted_def example_initial_def
      example_groups_def)

lemma example_counted_counts: "contacts_are_counts example_counted"
  by (auto simp: contacts_are_counts_def example_counted_def example_initial_def counts_def
      split: if_splits)

theorem contact_matrices_normalised_witness:
  "contacts_allocated example_env example_counted \<and> contacts_are_counts example_counted
   \<and> (\<exists>st'. normalise_contacts example_env example_counted = Inr st'
         \<and> proteins_ctcts_res st' (0, 0) = Some [[0, 25], [75, 0]]
         \<and> proteins_ctcts_res_size st' (0, 0) = Some [(2, [[0, 25], [75, 0]]), (3, [[0, 0], [0, 0]])])"
proof -
  have h: "contacts_allocated example_env example_counted \<and> contacts_are_counts example_counted"
    using example_counted_allocated example_counted_counts by simp
  from contact_matrices_normalised [of example_env example_counted] h
  obtain st' where st': "normalise_contacts example_env example_counted = Inr st'"
    and all: "\<forall>s1 s2. s1 \<le> s2 \<and> s2 < nb_species example_env \<longrightarrow>
                (\<exists>M M'. proteins_ctcts_res example_counted (s1, s2) = Some M
                      \<and> proteins_ctcts_res st' (s1, s2) = Some M' \<and> scaled_to_100 M M')
              \<and> (\<exists>d d'. proteins_ctcts_res_size example_counted (s1, s2) = Some d
                      \<and> proteins_ctcts_res_size st' (s1, s2) = Some d'
                      \<and> map fst d' = map fst d
                      \<and> (\<forall>i<length d. scaled_to_100 (snd (d ! i)) (snd (d' ! i))))
              \<and> (\<forall>G. cluster_groups example_env = Some G \<longrightarrow>
                    (\<exists>dg dg'. proteins_ctcts_res_group example_counted (s1, s2) = Some dg
                       \<and> proteins_ctcts_res_group st' (s1, s2) = Some dg'
                       \<and> (\<forall>g<groups_number G. \<exists>M M'. dg g = Some M \<and> dg' g = Some M'
                              \<and> scaled_to_100 M M')))"
    by blast
  have z: "(0::nat) \<le> 0 \<and> 0 < nb_species example_env" by (simp add: example_env_def)
  from all [rule_format, OF z]
  obtain M' d' where M': "proteins_ctcts_res st' (0, 0) = Some M'" "scaled_to_100 [[0, 1], [3, 0]] M'"
    and d': "proteins_ctcts_res_size st' (0, 0) = Some d'" "map fst d' = [2, 3]"
      "scaled_to_100 [[0, 1], [3, 0]] (snd (d' ! 0))" "scaled_to_100 [[0, 0], [0, 0]] (snd (d' ! 1))"
    by (fastforce simp: example_counted_def example_initial_def)
  have "M' = [[0, 25], [75, 0]]" using M'(2) by (simp add: scaled_to_100_def matrix_sum_def)
  moreover have "d' = [(2, [[0, 25], [75, 0]]), (3, [[0, 0], [0, 0]])]"
  proof -
    have l: "length d' = 2" using d'(2) by (metis length_map length_Cons list.size(3) numeral_2_eq_2)
    have "snd (d' ! 0) = [[0, 25], [75, 0]]" "snd (d' ! 1) = [[0, 0], [0, 0]]"
      using d'(3,4) by (simp_all add: scaled_to_100_def matrix_sum_def)
    moreover have "fst (d' ! 0) = 2" "fst (d' ! 1) = 3"
      using d'(2) l by (metis nth_map nth_Cons_0 zero_less_numeral, metis One_nat_def nth_map nth_Cons_0 nth_Cons_Suc one_less_numeral_iff semiring_norm(76))
    ultimately have "d' ! 0 = (2, [[0, 25], [75, 0]])" "d' ! 1 = (3, [[0, 0], [0, 0]])"
      by (simp_all add: prod_eq_iff)
    with l show ?thesis by (auto simp: list_eq_iff_nth_eq less_Suc_eq numeral_2_eq_2)
  qed
  ultimately show ?thesis using h st' M'(1) d'(1) by simp
qed

subsection \<open>Composition statistics\<close>

lemma sqrt_sixteenth: "sqrt (1 / 16) = 1 / 4"
  by (rule real_sqrt_unique) (simp_all add: power2_eq_square)

lemma example_welford:
  "welford_items 3 (nat 2) [([2, 0, 0], 1), ([1, 1, 0], 1)] (replicate 3 0, replicate 3 0, replicate 3 0)
     = Inr ([2, 2, 2], [3 / 4, 1 / 4, 0], [1 / 8, 1 / 8, 0])"
  by (simp add: welford_items_def welford_species_def numeral_3_eq_3 upt_rec Let_def)

lemma example_welford_nat:
  "welford_items 3 2 [([2, 0, 0], 1), ([1, 1, 0], 1)] (replicate 3 0, replicate 3 0, replicate 3 0)
     = Inr ([2, 2, 2], [3 / 4, 1 / 4, 0], [1 / 8, 1 / 8, 0])"
  using example_welford by simp

lemma example_comp_stats_size:
  "comp_stats_size 3 2 [([2, 0, 0], 1), ([1, 1, 0], 1)] = Inr ([75, 25, 0], [0, 0, 0])"
  unfolding comp_stats_size_def example_welford
  by (simp add: bind_err_def report_rows_def numeral_3_eq_3 upt_rec)

lemma example_comp_stats_group:
  "comp_stats_group 3 [(2, [([2, 0, 0], 1), ([1, 1, 0], 1)])] = Inr ([75, 25, 0], [0, 0, 0])"
  unfolding comp_stats_group_def fold_err.simps fst_conv snd_conv example_welford_nat
  by (simp add: bind_err_def report_rows_def numeral_3_eq_3 upt_rec)

lemma example_own_std:
  "own_std 3 ([2, 2, 2], [3 / 4, 1 / 4, 0], [1 / 8, 1 / 8, 0]) = [25, 25, 0]"
  by (simp add: own_std_def numeral_3_eq_3 upt_rec sqrt_sixteenth)

text \<open>Whatever the arrays hold, the row of the standard deviations is one value
  repeated: the one of the last species.\<close>

lemma report_rows_std_last:
  assumes "tmp_n ! k > 0"
  shows "snd (report_rows (Suc k) (tmp_n, tmp_mean, tmp_M2))
           = replicate (Suc k) (sqrt (tmp_M2 ! k / tmp_n ! k) * 100)"
  using assms by (simp add: report_rows_def)

text \<open>
  C6 at a concrete input: three species, clusters of size 2, one of composition
  (2,0,0) and one of composition (1,1,0). The fractions of the first species are 1 and
  1/2, so its mean is 75 percent and its standard deviation 25 percent. The code
  reports the means of each species, but the row of standard deviations holds, for
  every species, the standard deviation of the last species, which is 0: by size and
  by group alike.
\<close>

theorem composition_std_is_the_last_species:
  "comp_stats_size 3 2 [([2, 0, 0], 1), ([1, 1, 0], 1)] = Inr ([75, 25, 0], [0, 0, 0])
   \<and> comp_stats_group 3 [(2, [([2, 0, 0], 1), ([1, 1, 0], 1)])] = Inr ([75, 25, 0], [0, 0, 0])
   \<and> map_sum id (own_std 3)
         (welford_items 3 2 [([2, 0, 0], 1), ([1, 1, 0], 1)]
            (replicate 3 0, replicate 3 0, replicate 3 0))
       = Inr [25, 25, 0]"
proof -
  have "map_sum id (own_std 3)
         (welford_items 3 2 [([2, 0, 0], 1), ([1, 1, 0], 1)]
            (replicate 3 0, replicate 3 0, replicate 3 0))
       = Inr [25, 25, 0]"
    unfolding example_welford_nat by (simp only: map_sum.simps example_own_std)
  with example_comp_stats_size example_comp_stats_group show ?thesis by blast
qed

end
